theory Spec2Isabelle
  imports Main "HOL-Library.Sublist"
begin

section \<open>Strings as the loader uses them\<close>

text \<open>
  Keys, file names and symbolic model names are Python \<open>str\<close> values; they are modelled as
  \<open>string\<close> (ASCII). \<open>needle in hay\<close> is contiguous containment, \<open>str.lower\<close> maps
  \<open>A..Z\<close> to \<open>a..z\<close>, and \<open>str.replace(old, '')\<close> deletes the non-overlapping
  occurrences of \<open>old\<close> from left to right.
\<close>

definition py_in :: "string \<Rightarrow> string \<Rightarrow> bool" where
  "py_in needle hay = sublist needle hay"

definition lower_char :: "char \<Rightarrow> char" where
  "lower_char c =
     (case map_of (zip ''ABCDEFGHIJKLMNOPQRSTUVWXYZ'' ''abcdefghijklmnopqrstuvwxyz'') c of
        Some l \<Rightarrow> l
      | None \<Rightarrow> c)"

definition lower :: "string \<Rightarrow> string" where
  "lower s = map lower_char s"

function remove_all :: "string \<Rightarrow> string \<Rightarrow> string" where
  "remove_all old [] = []"
| "remove_all old (c # cs) =
     (if old \<noteq> [] \<and> prefix old (c # cs)
      then remove_all old (drop (length old) (c # cs))
      else c # remove_all old cs)"
  by pat_completeness auto
termination
  by (relation "measure (\<lambda>(old, s). length s)") auto

definition is_digit :: "char \<Rightarrow> bool" where
  "is_digit c = (c \<in> set ''0123456789'')"

definition digit_val :: "char \<Rightarrow> nat" where
  "digit_val c =
     (case map_of (zip ''0123456789'' [0, 1, 2, 3, 4, 5, 6, 7, 8, 9]) c of
        Some d \<Rightarrow> d
      | None \<Rightarrow> 0)"

definition int_of_digits :: "string \<Rightarrow> nat" where
  "int_of_digits ds = foldl (\<lambda>acc c. 10 * acc + digit_val c) 0 ds"

section \<open>Checkpoint artifacts\<close>

text \<open>
  A tensor is a shape with an opaque payload of numbers; the loader only ever reads the
  shape and copies the payload. A deserialized artifact is \<open>None\<close>, a tensor, a dict with
  string keys in insertion order, or some other object (a pickled module, a number, ...).
\<close>

datatype 'v tensor = Tensor (shape: "nat list") (payload: 'v)

datatype 'v pyobj =
    PyNone
  | PyTensor "'v tensor"
  | PyDict "(string \<times> 'v pyobj) list"
  | PyOther

datatype error =
    ModelNotFound
  | UnknownModelName
  | AttributeError
  | UnboundLocalError
  | TypeError
  | RuntimeError

section \<open>Class-count inference\<close>

text \<open>
  \<open>_extract_layer_index\<close>: \<open>re.search(r'\.(\d+)\.', key)\<close> finds the leftmost dot that is
  followed by one or more digits and another dot; the digits are the index, 0 without a
  match.
\<close>

fun re_search_dot_digits_dot :: "string \<Rightarrow> string option" where
  "re_search_dot_digits_dot [] = None"
| "re_search_dot_digits_dot (c # cs) =
     (if c = CHR ''.'' \<and> takeWhile is_digit cs \<noteq> []
         \<and> (case dropWhile is_digit cs of [] \<Rightarrow> False | d # _ \<Rightarrow> d = CHR ''.'')
      then Some (takeWhile is_digit cs)
      else re_search_dot_digits_dot cs)"

definition extract_layer_index :: "string \<Rightarrow> nat" where
  "extract_layer_index k =
     (case re_search_dot_digits_dot k of
        Some ds \<Rightarrow> int_of_digits ds
      | None \<Rightarrow> 0)"

text \<open>
  The pattern as a property of strings: some dot is followed by a non-empty run of digits
  and another dot.
\<close>

definition dot_digits_dot :: "string \<Rightarrow> bool" where
  "dot_digits_dot s =
     (\<exists>pre ds post. s = pre @ ''.'' @ ds @ ''.'' @ post \<and> ds \<noteq> [] \<and> (\<forall>c\<in>set ds. is_digit c))"

record candidate =
  key :: string
  output_dim :: nat
  input_dim :: nat
  index :: nat

definition classifier_term :: "string \<Rightarrow> bool" where
  "classifier_term k =
     (py_in ''classifier'' (lower k) \<or> py_in ''fc'' (lower k) \<or> py_in ''head'' (lower k))"

text \<open>
  The collecting loop of \<open>detect_num_classes_from_checkpoint\<close>. \<open>tensor.shape\<close> is only
  evaluated for keys containing \<open>weight\<close>; on a value without a shape it raises.
\<close>

fun collect_candidates :: "(string \<times> 'v pyobj) list \<Rightarrow> error + candidate list" where
  "collect_candidates [] = Inr []"
| "collect_candidates ((k, v) # rest) =
     (if py_in ''weight'' k then
        (case v of
           PyTensor t \<Rightarrow>
             (if length (shape t) = 2 \<and> classifier_term k then
                (case collect_candidates rest of
                   Inl e \<Rightarrow> Inl e
                 | Inr cs \<Rightarrow>
                     Inr (\<lparr>key = k, output_dim = shape t ! 0, input_dim = shape t ! 1,
                           index = extract_layer_index k\<rparr> # cs))
              else collect_candidates rest)
         | _ \<Rightarrow> Inl AttributeError)
      else collect_candidates rest)"

text \<open>
  \<open>candidate_layers.sort(key=lambda x: x['index'], reverse=True)\<close>: a stable sort,
  descending in the index; candidates of equal index keep their order.
\<close>

definition sort_by_index_desc :: "candidate list \<Rightarrow> candidate list" where
  "sort_by_index_desc cs = sort_key (\<lambda>c. - int (index c)) cs"

definition reasonable :: "candidate \<Rightarrow> bool" where
  "reasonable c = (2 \<le> output_dim c \<and> output_dim c \<le> 100)"

definition select_num_classes :: "candidate list \<Rightarrow> nat option" where
  "select_num_classes cs =
     (if cs = [] then None
      else
        (case find reasonable (sort_by_index_desc cs) of
           Some c \<Rightarrow> Some (output_dim c)
         | None \<Rightarrow>
             (case sort_by_index_desc cs of
                c # _ \<Rightarrow> Some (output_dim c)
              | [] \<Rightarrow> None)))"

definition detect_num_classes_from_checkpoint :: "'v pyobj \<Rightarrow> error + nat option" where
  "detect_num_classes_from_checkpoint state_dict =
     (case state_dict of
        PyDict items \<Rightarrow>
          (case collect_candidates items of
             Inl e \<Rightarrow> Inl e
           | Inr cs \<Rightarrow> Inr (select_num_classes cs))
      | _ \<Rightarrow> Inl AttributeError)"

section \<open>Artifact normalisation\<close>

text \<open>
  The loop of \<open>load_model\<close> over \<open>checkpoint.keys()\<close>: \<open>state_dict\<close> starts as \<open>None\<close>
  and takes the value of the first key containing \<open>state_dict\<close> or \<open>model\<close> in lower
  case. A Python dict has each key once, so \<open>checkpoint[key]\<close> is the value listed with
  the key.
\<close>

definition wrapper_key :: "string \<Rightarrow> bool" where
  "wrapper_key k = (py_in ''state_dict'' (lower k) \<or> py_in ''model'' (lower k))"

fun scan_wrapper_keys :: "(string \<times> 'v pyobj) list \<Rightarrow> 'v pyobj" where
  "scan_wrapper_keys [] = PyNone"
| "scan_wrapper_keys ((k, v) # rest) =
     (if wrapper_key k then v else scan_wrapper_keys rest)"

definition normalize_checkpoint :: "'v pyobj \<Rightarrow> 'v pyobj" where
  "normalize_checkpoint checkpoint =
     (case checkpoint of
        PyDict items \<Rightarrow>
          (case map_of items ''model_state_dict'' of
             Some v \<Rightarrow> v
           | None \<Rightarrow>
               (case map_of items ''state_dict'' of
                  Some v \<Rightarrow> v
                | None \<Rightarrow>
                    (case map_of items ''model'' of
                       Some v \<Rightarrow> v
                     | None \<Rightarrow>
                         (let state_dict = scan_wrapper_keys items
                          in if state_dict = PyNone then checkpoint else state_dict))))
      | _ \<Rightarrow> checkpoint)"

text \<open>A parameter map, as a deserialized object: a dict whose values are all tensors.\<close>

definition as_state_dict :: "(string \<times> 'v tensor) list \<Rightarrow> 'v pyobj" where
  "as_state_dict pm = PyDict (map (\<lambda>(k, t). (k, PyTensor t)) pm)"

section \<open>Variant selection\<close>

text \<open>
  The loop over \<open>state_dict.items()\<close> that looks for the simple variant of
  \<open>BinaryCNN_Deep\<close>; \<open>state_dict\<close> is unbound when reading the checkpoint raised.
\<close>

fun find_simple_variant :: "(string \<times> 'v pyobj) list \<Rightarrow> nat \<Rightarrow> error + string" where
  "find_simple_variant [] num_classes = Inr ''default''"
| "find_simple_variant ((k, v) # rest) num_classes =
     (if py_in ''classifier.4.weight'' k then
        (case v of
           PyTensor t \<Rightarrow>
             (if length (shape t) = 2 then
                (if shape t ! 0 = num_classes \<and> shape t ! 1 = 128 then Inr ''simple''
                 else find_simple_variant rest num_classes)
              else find_simple_variant rest num_classes)
         | _ \<Rightarrow> Inl AttributeError)
      else find_simple_variant rest num_classes)"

definition select_variant :: "string \<Rightarrow> 'v pyobj option \<Rightarrow> nat \<Rightarrow> error + string" where
  "select_variant model_name state_dict num_classes =
     (if model_name = ''BinaryCNN_Deep'' then
        (case state_dict of
           None \<Rightarrow> Inl UnboundLocalError
         | Some (PyDict items) \<Rightarrow> find_simple_variant items num_classes
         | Some _ \<Rightarrow> Inl AttributeError)
      else Inr ''default'')"

text \<open>
  The classifier head that \<open>BinaryCNN_Deep.__init__\<close> builds, as the keys and shapes of its
  linear layers (\<open>nn.Linear(i, o)\<close> has a weight of shape \<open>[o, i]\<close> and a bias of shape
  \<open>[o]\<close>; dropout and activation layers have no parameters).
\<close>

definition BinaryCNN_Deep_classifier :: "nat \<Rightarrow> string \<Rightarrow> (string \<times> nat list) list" where
  "BinaryCNN_Deep_classifier n variant =
     (if variant = ''simple'' \<or> variant = ''checkpoint'' then
        [(''classifier.1.weight'', [128, 512]), (''classifier.1.bias'', [128]),
         (''classifier.4.weight'', [n, 128]), (''classifier.4.bias'', [n])]
      else
        [(''classifier.1.weight'', [256, 512]), (''classifier.1.bias'', [256]),
         (''classifier.4.weight'', [128, 256]), (''classifier.4.bias'', [128]),
         (''classifier.7.weight'', [n, 128]), (''classifier.7.bias'', [n])])"

section \<open>Registry tables and the discovery scan\<close>

record config =
  num_classes :: nat
  class_names :: "string list"

definition coffee_classes :: "string list" where
  "coffee_classes = [''Cerscospora'', ''Healthy'', ''Leaf rust'', ''Miner'', ''Phoma'']"

definition binary_classes :: "string list" where
  "binary_classes = [''Healthy'', ''Not Healthy'']"

definition MODEL_CONFIGS :: "(string \<times> config) list" where
  "MODEL_CONFIGS =
     [(''ShuffleNet'', \<lparr>num_classes = 5, class_names = coffee_classes\<rparr>),
      (''MobileNetV3'', \<lparr>num_classes = 5, class_names = coffee_classes\<rparr>),
      (''EfficientNet'', \<lparr>num_classes = 5, class_names = coffee_classes\<rparr>),
      (''CustomCNN1'', \<lparr>num_classes = 5, class_names = coffee_classes\<rparr>),
      (''CustomCNN2'', \<lparr>num_classes = 5, class_names = coffee_classes\<rparr>),
      (''CustomCNN3'', \<lparr>num_classes = 5, class_names = coffee_classes\<rparr>),
      (''BinaryCNN_Light'', \<lparr>num_classes = 2, class_names = binary_classes\<rparr>),
      (''BinaryCNN_Deep'', \<lparr>num_classes = 2, class_names = binary_classes\<rparr>),
      (''BinaryCNN_Efficient'', \<lparr>num_classes = 2, class_names = binary_classes\<rparr>)]"

text \<open>
  An instantiated network: the constructor arguments it was built from and its
  \<open>state_dict()\<close>, the named parameter tensors in order.
\<close>

record 'v model =
  arch :: string
  out_classes :: nat
  variant_tag :: string
  params :: "(string \<times> 'v tensor) list"

text \<open>
  The module globals \<open>loaded_models\<close>, \<open>model_paths\<close> and \<open>model_configs\<close>, and the list
  of paths handed to \<open>torch.load\<close> so far.
\<close>

record 'v state =
  loaded_models :: "string \<rightharpoonup> 'v model"
  model_paths :: "string \<rightharpoonup> string"
  model_configs :: "string \<rightharpoonup> config"
  torch_loads :: "string list"

text \<open>
  \<open>Path.stem\<close>: the file name up to its last dot, when that dot is neither the first nor
  the last character.
\<close>

definition stem :: "string \<Rightarrow> string" where
  "stem name =
     (if CHR ''.'' \<in> set name then
        (let i = length name - 1 - length (takeWhile (\<lambda>c. c \<noteq> CHR ''.'') (rev name))
         in if 0 < i \<and> i < length name - 1 then take i name else name)
      else name)"

definition candidate_name :: "string \<Rightarrow> string" where
  "candidate_name file = remove_all ''_checkpoint'' (remove_all ''_best'' (stem file))"

definition name_matches :: "string \<Rightarrow> string \<Rightarrow> bool" where
  "name_matches config_name model_name =
     (py_in (lower config_name) (lower model_name)
      \<or> py_in (lower model_name) (lower config_name)
      \<or> py_in (remove_all ''_'' (remove_all ''cnn'' (lower config_name)))
               (remove_all ''_'' (lower model_name)))"

text \<open>
  The inner loop over \<open>MODEL_CONFIGS\<close> for one file; the stored path is the file itself.
  The \<open>break\<close> is taken only when the matching name is not yet in \<open>model_paths\<close>.
\<close>

fun match_file :: "(string \<times> config) list \<Rightarrow> string \<Rightarrow> 'v state \<Rightarrow> 'v state" where
  "match_file [] file st = st"
| "match_file ((config_name, cfg) # rest) file st =
     (if name_matches config_name (candidate_name file) then
        (if model_paths st config_name = None then
           st\<lparr>model_paths := (model_paths st)(config_name \<mapsto> file),
              model_configs := (model_configs st)(config_name \<mapsto> cfg)\<rparr>
         else match_file rest file st)
      else match_file rest file st)"

fun scan_files :: "string list \<Rightarrow> 'v state \<Rightarrow> 'v state" where
  "scan_files [] st = st"
| "scan_files (file # files) st = scan_files files (match_file MODEL_CONFIGS file st)"

definition scan_for_models :: "string list \<Rightarrow> 'v state \<Rightarrow> 'v state" where
  "scan_for_models pth_files st =
     scan_files pth_files (st\<lparr>model_paths := Map.empty, model_configs := Map.empty\<rparr>)"

definition initial_state :: "'v state" where
  "initial_state =
     \<lparr>loaded_models = Map.empty, model_paths = Map.empty, model_configs = Map.empty,
      torch_loads = []\<rparr>"

section \<open>Building and binding\<close>

text \<open>
  The environment of a load: which paths exist, what \<open>torch.load\<close> returns for a path
  (\<open>None\<close> when it raises), and the freshly initialised \<open>state_dict()\<close> that each
  constructor produces.
\<close>

record 'v env =
  path_exists :: "string \<Rightarrow> bool"
  torch_load :: "string \<Rightarrow> 'v pyobj option"
  constructor :: "string \<Rightarrow> nat \<Rightarrow> string \<Rightarrow> (string \<times> 'v tensor) list"

definition new_module :: "'v env \<Rightarrow> string \<Rightarrow> nat \<Rightarrow> string \<Rightarrow> 'v model" where
  "new_module env model_name n variant =
     \<lparr>arch = model_name, out_classes = n, variant_tag = variant,
      params = constructor env model_name n variant\<rparr>"

text \<open>Only \<open>BinaryCNN_Deep\<close> takes the variant; the other constructors have none.\<close>

definition create_model_architecture ::
  "'v env \<Rightarrow> string \<Rightarrow> nat \<Rightarrow> string \<Rightarrow> error + 'v model" where
  "create_model_architecture env model_name n variant =
     (if model_name \<in> set [''ShuffleNet'', ''MobileNetV3'', ''EfficientNet'', ''CustomCNN1'',
                            ''CustomCNN2'', ''CustomCNN3'', ''BinaryCNN_Light'']
      then Inr (new_module env model_name n ''default'')
      else if model_name = ''BinaryCNN_Deep'' then Inr (new_module env model_name n variant)
      else if model_name = ''BinaryCNN_Efficient''
      then Inr (new_module env model_name n ''default'')
      else Inl UnknownModelName)"

text \<open>
  Modelled from the spec: \<open>Module.load_state_dict(state_dict, strict=False)\<close> belongs to
  the tensor library, not to the repository. Following section 4.5, tier 1: every parameter
  of the instance whose key is in the map with exactly the same shape is assigned; keys of
  the instance absent from the map are the missing keys, keys of the map absent from the
  instance are the unexpected keys. A same-key pair of differing shapes makes the call
  raise after the assignments, with an error message that names each such key after the
  words \<open>size mismatch\<close>; so does a value that is no tensor, without those words. The
  error is modelled as \<open>LoadError ks\<close>, \<open>ks\<close> the keys reported with a size mismatch.
\<close>

datatype load_error = LoadError (size_mismatches: "string list")

definition assign_param :: "(string \<times> 'v pyobj) list \<Rightarrow> string \<times> 'v tensor \<Rightarrow> string \<times> 'v tensor" where
  "assign_param sd p =
     (case map_of sd (fst p) of
        Some (PyTensor t) \<Rightarrow> if shape t = shape (snd p) then (fst p, t) else p
      | _ \<Rightarrow> p)"

definition size_mismatch :: "(string \<times> 'v pyobj) list \<Rightarrow> string \<times> 'v tensor \<Rightarrow> bool" where
  "size_mismatch sd p =
     (case map_of sd (fst p) of
        Some (PyTensor t) \<Rightarrow> shape t \<noteq> shape (snd p)
      | _ \<Rightarrow> False)"

definition not_a_tensor :: "(string \<times> 'v pyobj) list \<Rightarrow> string \<times> 'v tensor \<Rightarrow> bool" where
  "not_a_tensor sd p =
     (case map_of sd (fst p) of
        None \<Rightarrow> False
      | Some (PyTensor t) \<Rightarrow> False
      | Some _ \<Rightarrow> True)"

definition load_state_dict ::
  "'v model \<Rightarrow> (string \<times> 'v pyobj) list
     \<Rightarrow> 'v model \<times> (load_error + string list \<times> string list)" where
  "load_state_dict m sd =
     (let m' = m\<lparr>params := map (assign_param sd) (params m)\<rparr>;
          mismatched = map fst (filter (size_mismatch sd) (params m));
          broken = map fst (filter (not_a_tensor sd) (params m));
          missing_keys = filter (\<lambda>k. map_of sd k = None) (map fst (params m));
          unexpected_keys = filter (\<lambda>k. map_of (params m) k = None) (map fst sd)
      in if mismatched = [] \<and> broken = [] then (m', Inr (missing_keys, unexpected_keys))
         else (m', Inl (LoadError mismatched)))"

text \<open>
  The entries of \<open>incompatible_keys\<close>: the source formats
  \<open>"{key}: checkpoint {shape} vs model {shape}"\<close> and \<open>"{key}: not in model"\<close>.
\<close>

datatype incompatible =
    ShapeMismatch string "nat list" "nat list"
  | NotInModel string

text \<open>
  The loop of the partial load over \<open>state_dict.items()\<close>, building \<open>compatible_state\<close>
  and \<open>incompatible_keys\<close>; \<open>value.shape\<close> raises on a value that is no tensor.
\<close>

fun filter_compatible ::
  "(string \<times> 'v tensor) list \<Rightarrow> (string \<times> 'v pyobj) list
     \<Rightarrow> error + (string \<times> 'v pyobj) list \<times> incompatible list" where
  "filter_compatible model_state [] = Inr ([], [])"
| "filter_compatible model_state ((k, v) # rest) =
     (case map_of model_state k of
        Some p \<Rightarrow>
          (case v of
             PyTensor t \<Rightarrow>
               (case filter_compatible model_state rest of
                  Inl e \<Rightarrow> Inl e
                | Inr (compatible_state, incompatible_keys) \<Rightarrow>
                    if shape p = shape t
                    then Inr ((k, v) # compatible_state, incompatible_keys)
                    else Inr (compatible_state,
                              ShapeMismatch k (shape t) (shape p) # incompatible_keys))
           | _ \<Rightarrow> Inl AttributeError)
      | None \<Rightarrow>
          (case filter_compatible model_state rest of
             Inl e \<Rightarrow> Inl e
           | Inr (compatible_state, incompatible_keys) \<Rightarrow>
               Inr (compatible_state, NotInModel k # incompatible_keys)))"

record diagnostics =
  missing_keys :: "string list"
  unexpected_keys :: "string list"
  incompatible_keys :: "incompatible list"

text \<open>
  The weight-loading block of \<open>load_model\<close>. The diagnostics are the key lists that
  \<open>load_state_dict\<close> returned and the \<open>incompatible_keys\<close> of the partial load, which the
  source prints; \<open>load_model\<close> itself returns the model only.
\<close>

definition load_weights :: "'v model \<Rightarrow> 'v pyobj option \<Rightarrow> error + 'v model \<times> diagnostics" where
  "load_weights m state_dict =
     (case state_dict of
        None \<Rightarrow> Inl UnboundLocalError
      | Some (PyDict sd) \<Rightarrow>
          (case load_state_dict m sd of
             (m1, Inr (missing, unexpected)) \<Rightarrow>
               Inr (m1, \<lparr>missing_keys = missing, unexpected_keys = unexpected,
                          incompatible_keys = []\<rparr>)
           | (m1, Inl err) \<Rightarrow>
               if size_mismatches err \<noteq> [] then
                 (case filter_compatible (params m1) sd of
                    Inl e \<Rightarrow> Inl e
                  | Inr (compatible_state, incompatible) \<Rightarrow>
                      (case load_state_dict m1 compatible_state of
                         (m2, Inr (missing, unexpected)) \<Rightarrow>
                           Inr (m2, \<lparr>missing_keys = missing, unexpected_keys = unexpected,
                                      incompatible_keys = incompatible\<rparr>)
                       | (m2, Inl err2) \<Rightarrow> Inl RuntimeError))
               else Inl RuntimeError)
      | Some _ \<Rightarrow> Inl TypeError)"

section \<open>The model cache: \<open>load_model\<close>\<close>

function str_nat :: "nat \<Rightarrow> string" where
  "str_nat n =
     (if n < 10 then [''0123456789'' ! n]
      else str_nat (n div 10) @ [''0123456789'' ! (n mod 10)])"
  by pat_completeness auto
termination
  by (relation "measure (\<lambda>n. n)") auto

definition names_for :: "nat \<Rightarrow> string list" where
  "names_for n =
     (if n = 2 then [''Healthy'', ''Not Healthy'']
      else if n = 5 then [''Cerscospora'', ''Healthy'', ''Leaf rust'', ''Miner'', ''Phoma'']
      else if n = 10 then map (\<lambda>i. ''Class_'' @ str_nat i) [0..<n]
      else map (\<lambda>i. ''Class_'' @ str_nat i) [0..<n])"

text \<open>
  The \<open>try\<close> block of \<open>load_model\<close>: read, normalise, detect. It yields the binding of
  \<open>state_dict\<close> (\<open>None\<close> while unbound), \<open>num_classes\<close>, \<open>class_names\<close> and the state.
  Any exception inside falls back to the defaults; \<open>if detected_num_classes\<close> is false for
  \<open>None\<close> and for 0.
\<close>

definition read_checkpoint ::
  "'v env \<Rightarrow> string \<Rightarrow> string \<Rightarrow> 'v state
     \<Rightarrow> 'v pyobj option \<times> nat \<times> string list \<times> 'v state" where
  "read_checkpoint env model_name model_path st =
     (let default_num_classes =
            (case model_configs st model_name of Some c \<Rightarrow> num_classes c | None \<Rightarrow> 5);
          default_class_names =
            (case model_configs st model_name of Some c \<Rightarrow> class_names c | None \<Rightarrow> []);
          st1 = st\<lparr>torch_loads := torch_loads st @ [model_path]\<rparr>
      in case torch_load env model_path of
           None \<Rightarrow> (None, default_num_classes, default_class_names, st1)
         | Some checkpoint \<Rightarrow>
             (let state_dict = normalize_checkpoint checkpoint
              in case detect_num_classes_from_checkpoint state_dict of
                   Inr (Some detected) \<Rightarrow>
                     if detected \<noteq> 0 then
                       (Some state_dict, detected, names_for detected,
                        st1\<lparr>model_configs := (model_configs st1)(model_name \<mapsto>
                              \<lparr>num_classes = detected, class_names = names_for detected\<rparr>)\<rparr>)
                     else (Some state_dict, default_num_classes, default_class_names, st1)
                 | _ \<Rightarrow> (Some state_dict, default_num_classes, default_class_names, st1)))"

definition load_model :: "'v env \<Rightarrow> string \<Rightarrow> 'v state \<Rightarrow> (error + 'v model) \<times> 'v state" where
  "load_model env model_name st =
     (case loaded_models st model_name of
        Some m \<Rightarrow> (Inr m, st)
      | None \<Rightarrow>
          (case model_paths st model_name of
             None \<Rightarrow> (Inl ModelNotFound, st)
           | Some model_path \<Rightarrow>
               if model_path = [] \<or> \<not> path_exists env model_path
               then (Inl ModelNotFound, st)
               else
                 (case read_checkpoint env model_name model_path st of
                    (state_dict, n, names, st1) \<Rightarrow>
                      (case select_variant model_name state_dict n of
                         Inl e \<Rightarrow> (Inl e, st1)
                       | Inr variant \<Rightarrow>
                           (case create_model_architecture env model_name n variant of
                              Inl e \<Rightarrow> (Inl e, st1)
                            | Inr m \<Rightarrow>
                                (case load_weights m state_dict of
                                   Inl e \<Rightarrow> (Inl e, st1)
                                 | Inr (m', diag) \<Rightarrow>
                                     (Inr m',
                                      st1\<lparr>loaded_models :=
                                            (loaded_models st1)(model_name \<mapsto> m')\<rparr>)))))))"

text \<open>Later requests: each calls \<open>load_model\<close> for some name in the environment of its time.\<close>

fun later_calls :: "('v env \<times> string) list \<Rightarrow> 'v state \<Rightarrow> 'v state" where
  "later_calls [] st = st"
| "later_calls ((env, model_name) # calls) st =
     later_calls calls (snd (load_model env model_name st))"

section \<open>A worked scenario\<close>

text \<open>
  The second end-to-end scenario of the specification: the artifact wraps a parameter map
  under \<open>state_dict\<close>, its \<open>classifier.4.weight\<close> has shape \<open>[5, 256]\<close>, and the instance
  built for \<open>n\<close> classes expects \<open>[n, 128]\<close>. Payloads are numbered: 0 is what the
  constructor wrote. The tables are those of a scan that found \<open>CustomCNN1_best.pth\<close>.
\<close>

definition scenario_map :: "(string \<times> nat tensor) list" where
  "scenario_map =
     [(''classifier.4.weight'', Tensor [5, 256] 1),
      (''classifier.4.bias'', Tensor [5] 2),
      (''features.0.weight'', Tensor [32, 3, 3, 3] 3)]"

definition scenario_constructor :: "string \<Rightarrow> nat \<Rightarrow> string \<Rightarrow> (string \<times> nat tensor) list" where
  "scenario_constructor model_name n variant =
     [(''features.0.weight'', Tensor [32, 3, 3, 3] 0),
      (''classifier.4.weight'', Tensor [n, 128] 0),
      (''classifier.4.bias'', Tensor [n] 0)]"

definition scenario_env :: "nat env" where
  "scenario_env =
     \<lparr>path_exists = (\<lambda>p. True),
      torch_load = (\<lambda>p. Some (PyDict [(''state_dict'', as_state_dict scenario_map)])),
      constructor = scenario_constructor\<rparr>"

text \<open>The same directory after the file was removed, and with an unreadable file.\<close>

definition removed_env :: "nat env" where
  "removed_env =
     \<lparr>path_exists = (\<lambda>p. False), torch_load = (\<lambda>p. None),
      constructor = scenario_constructor\<rparr>"

definition corrupt_env :: "nat env" where
  "corrupt_env =
     \<lparr>path_exists = (\<lambda>p. True), torch_load = (\<lambda>p. None),
      constructor = scenario_constructor\<rparr>"

text \<open>An artifact whose only classifier layer has no rows.\<close>

definition empty_head_env :: "nat env" where
  "empty_head_env =
     \<lparr>path_exists = (\<lambda>p. True),
      torch_load = (\<lambda>p. Some (as_state_dict [(''fc.weight'', Tensor [0, 10] 7)])),
      constructor = scenario_constructor\<rparr>"

definition scenario_state :: "nat state" where
  "scenario_state = scan_for_models [''CustomCNN1_best.pth''] initial_state"

section \<open>Lists: first match and stable sorting\<close>


lemma find_filter_hd:
  "find P ys = (case filter P ys of [] \<Rightarrow> None | y # _ \<Rightarrow> Some y)"
  by (induction ys) auto

lemma filter_split_at:
  "filter P xs = as @ c # bs \<Longrightarrow>
     \<exists>pre post. xs = pre @ c # post \<and> filter P pre = as \<and> filter P post = bs \<and> P c"
proof (induction as arbitrary: xs)
  case Nil
  then obtain us vs where "xs = us @ c # vs" "\<forall>u\<in>set us. \<not> P u" "P c" "bs = filter P vs"
    by (auto dest: filter_eq_ConsD)
  then have "xs = us @ c # vs \<and> filter P us = [] \<and> filter P vs = bs \<and> P c"
    by simp
  then show ?case by blast
next
  case (Cons a as)
  then have "filter P xs = a # (as @ c # bs)" by simp
  then obtain us vs where xs: "xs = us @ a # vs" and us: "\<forall>u\<in>set us. \<not> P u" and a: "P a"
    and vs: "as @ c # bs = filter P vs"
    by (auto dest: filter_eq_ConsD)
  from Cons.IH [of vs] vs obtain pre post where
    p: "vs = pre @ c # post" "filter P pre = as" "filter P post = bs" "P c"
    by auto
  have "xs = (us @ a # pre) @ c # post \<and> filter P (us @ a # pre) = a # as
          \<and> filter P post = bs \<and> P c"
    using xs us a p by simp
  then show ?case by blast
qed

lemma hd_sort_key_first_min:
  fixes f :: "'a \<Rightarrow> 'k::linorder"
  assumes "xs \<noteq> []"
  shows "\<exists>pre c post. xs = pre @ c # post \<and> sort_key f xs = c # tl (sort_key f xs)
           \<and> (\<forall>d\<in>set pre. f c < f d) \<and> (\<forall>d\<in>set post. f c \<le> f d)"
proof -
  let ?s = "sort_key f xs"
  from assms have ne: "?s \<noteq> []" by (metis length_sort length_0_conv)
  then obtain c r where s: "?s = c # r" by (cases ?s) auto
  have srt: "sorted (map f ?s)" by (rule sorted_sort_key)
  have le: "\<forall>y\<in>set xs. f c \<le> f y"
  proof
    fix y assume "y \<in> set xs"
    then have "y \<in> set ?s" by simp
    with srt s show "f c \<le> f y" by auto
  qed
  have "filter (\<lambda>y. f y = f c) ?s = c # filter (\<lambda>y. f y = f c) r"
    using s by simp
  then have "filter (\<lambda>y. f y = f c) xs = c # filter (\<lambda>y. f y = f c) r"
    by (simp add: sort_key_stable)
  then obtain us vs where xs: "xs = us @ c # vs" and us: "\<forall>u\<in>set us. f u \<noteq> f c"
    by (auto simp: filter_eq_Cons_iff)
  have "\<forall>d\<in>set us. f c < f d"
    using le us xs by (auto simp: less_le)
  moreover have "\<forall>d\<in>set vs. f c \<le> f d"
    using le xs by auto
  ultimately show ?thesis using xs s by auto
qed

lemma find_sort_key_first_min:
  fixes f :: "'a \<Rightarrow> 'k::linorder"
  assumes "\<exists>x\<in>set xs. P x"
  shows "\<exists>pre c post. xs = pre @ c # post \<and> P c \<and> find P (sort_key f xs) = Some c
           \<and> (\<forall>d\<in>set pre. P d \<longrightarrow> f c < f d) \<and> (\<forall>d\<in>set post. P d \<longrightarrow> f c \<le> f d)"
proof -
  let ?g = "filter P xs"
  from assms have g: "?g \<noteq> []" by (simp add: filter_empty_conv)
  from hd_sort_key_first_min [OF g, of f] obtain as c bs where
    split: "?g = as @ c # bs" and hd: "sort_key f ?g = c # tl (sort_key f ?g)"
    and as: "\<forall>d\<in>set as. f c < f d" and bs: "\<forall>d\<in>set bs. f c \<le> f d"
    by blast
  from filter_split_at [OF split] obtain pre post where
    xs: "xs = pre @ c # post" and pre: "filter P pre = as" and post: "filter P post = bs"
    and c: "P c"
    by blast
  have "filter P (sort_key f xs) = c # tl (sort_key f ?g)"
    using hd by (simp add: filter_sort)
  then have "find P (sort_key f xs) = Some c"
    by (simp add: find_filter_hd)
  moreover have "\<forall>d\<in>set pre. P d \<longrightarrow> f c < f d"
    using as pre by auto
  moreover have "\<forall>d\<in>set post. P d \<longrightarrow> f c \<le> f d"
    using bs post by auto
  ultimately show ?thesis using xs c by blast
qed

section \<open>Class-count inference picks the last plausible classifier layer\<close>

text \<open>
  C1. On the empty candidate list the inference is undetermined. On a non-empty list
  \<open>cs\<close>: if some candidate has an output width in \<open>[2, 100]\<close>, the result is the output
  width of a candidate \<open>c\<close> of that kind such that every such candidate listed before \<open>c\<close>
  has a strictly smaller layer index and every such candidate listed after \<open>c\<close> has a
  layer index at most that of \<open>c\<close> (the highest index, the first encountered among equal
  ones); if none has, the result is the output width of the candidate chosen the same way
  among all of them, whatever its width.
\<close>

theorem select_num_classes_highest_reasonable:
  "select_num_classes [] = None \<and>
   (cs \<noteq> [] \<longrightarrow>
      (if \<exists>c\<in>set cs. reasonable c
       then \<exists>pre c post. cs = pre @ c # post \<and> reasonable c
              \<and> select_num_classes cs = Some (output_dim c)
              \<and> (\<forall>d\<in>set pre. reasonable d \<longrightarrow> index d < index c)
              \<and> (\<forall>d\<in>set post. reasonable d \<longrightarrow> index d \<le> index c)
       else \<exists>pre c post. cs = pre @ c # post
              \<and> select_num_classes cs = Some (output_dim c)
              \<and> (\<forall>d\<in>set pre. index d < index c)
              \<and> (\<forall>d\<in>set post. index d \<le> index c)))"
proof (intro conjI impI)
  show "select_num_classes [] = None"
    by (simp add: select_num_classes_def)
next
  assume ne: "cs \<noteq> []"
  show "if \<exists>c\<in>set cs. reasonable c
       then \<exists>pre c post. cs = pre @ c # post \<and> reasonable c
              \<and> select_num_classes cs = Some (output_dim c)
              \<and> (\<forall>d\<in>set pre. reasonable d \<longrightarrow> index d < index c)
              \<and> (\<forall>d\<in>set post. reasonable d \<longrightarrow> index d \<le> index c)
       else \<exists>pre c post. cs = pre @ c # post
              \<and> select_num_classes cs = Some (output_dim c)
              \<and> (\<forall>d\<in>set pre. index d < index c)
              \<and> (\<forall>d\<in>set post. index d \<le> index c)"
  proof (cases "\<exists>c\<in>set cs. reasonable c")
    case True
    from find_sort_key_first_min [OF True, of "\<lambda>c. - int (index c)"]
    obtain pre c post where
      "cs = pre @ c # post" "reasonable c"
      "find reasonable (sort_by_index_desc cs) = Some c"
      "\<forall>d\<in>set pre. reasonable d \<longrightarrow> index d < index c"
      "\<forall>d\<in>set post. reasonable d \<longrightarrow> index d \<le> index c"
      unfolding sort_by_index_desc_def by auto
    moreover from this ne have "select_num_classes cs = Some (output_dim c)"
      by (simp add: select_num_classes_def)
    ultimately show ?thesis using True by auto
  next
    case False
    then have none: "find reasonable (sort_by_index_desc cs) = None"
      by (simp add: find_None_iff sort_by_index_desc_def)
    from hd_sort_key_first_min [OF ne, of "\<lambda>c. - int (index c)"]
    obtain pre c post where
      "cs = pre @ c # post"
      "sort_by_index_desc cs = c # tl (sort_by_index_desc cs)"
      "\<forall>d\<in>set pre. index d < index c"
      "\<forall>d\<in>set post. index d \<le> index c"
      unfolding sort_by_index_desc_def by auto
    moreover from this none ne have "select_num_classes cs = Some (output_dim c)"
      unfolding select_num_classes_def by (cases "sort_by_index_desc cs") auto
    ultimately show ?thesis using False by auto
  qed
qed

text \<open>
  The theorem at the list of the monotonic-preference test: widths 5 and 512 at layer 4,
  width 512 at layer 7.
\<close>

theorem select_num_classes_highest_reasonable_witness:
  "[\<lparr>key = ''classifier.4.weight'', output_dim = 5, input_dim = 512, index = 4\<rparr>,
    \<lparr>key = ''head.4.weight'', output_dim = 512, input_dim = 1024, index = 4\<rparr>,
    \<lparr>key = ''classifier.7.weight'', output_dim = 512, input_dim = 5, index = 7\<rparr>] \<noteq> []
   \<and> (\<exists>c\<in>set [\<lparr>key = ''classifier.4.weight'', output_dim = 5, input_dim = 512, index = 4\<rparr>,
    \<lparr>key = ''head.4.weight'', output_dim = 512, input_dim = 1024, index = 4\<rparr>,
    \<lparr>key = ''classifier.7.weight'', output_dim = 512, input_dim = 5, index = 7\<rparr>]. reasonable c)
   \<and> (\<exists>pre c post.
         [\<lparr>key = ''classifier.4.weight'', output_dim = 5, input_dim = 512, index = 4\<rparr>,
          \<lparr>key = ''head.4.weight'', output_dim = 512, input_dim = 1024, index = 4\<rparr>,
          \<lparr>key = ''classifier.7.weight'', output_dim = 512, input_dim = 5, index = 7\<rparr>]
           = pre @ c # post
         \<and> reasonable c
         \<and> select_num_classes
              [\<lparr>key = ''classifier.4.weight'', output_dim = 5, input_dim = 512, index = 4\<rparr>,
               \<lparr>key = ''head.4.weight'', output_dim = 512, input_dim = 1024, index = 4\<rparr>,
               \<lparr>key = ''classifier.7.weight'', output_dim = 512, input_dim = 5, index = 7\<rparr>]
             = Some (output_dim c)
         \<and> (\<forall>d\<in>set pre. reasonable d \<longrightarrow> index d < index c)
         \<and> (\<forall>d\<in>set post. reasonable d \<longrightarrow> index d \<le> index c))"
  using select_num_classes_highest_reasonable
    [of "[\<lparr>key = ''classifier.4.weight'', output_dim = 5, input_dim = 512, index = 4\<rparr>,
          \<lparr>key = ''head.4.weight'', output_dim = 512, input_dim = 1024, index = 4\<rparr>,
          \<lparr>key = ''classifier.7.weight'', output_dim = 512, input_dim = 5, index = 7\<rparr>]"]
  by (simp add: reasonable_def)

section \<open>Evaluating the string operations\<close>

lemma py_in_Nil: "py_in [] hay" 
  by (simp add: py_in_def)

lemma py_in_Cons_Nil: "\<not> py_in (x # xs) []"
  by (simp add: py_in_def)

lemma py_in_Cons_Cons:
  "py_in (x # xs) (y # ys) \<longleftrightarrow> prefix (x # xs) (y # ys) \<or> py_in (x # xs) ys"
  by (simp add: py_in_def sublist_Cons_right)

lemmas py_in_simps = py_in_Nil py_in_Cons_Nil py_in_Cons_Cons

lemmas str_simps = py_in_simps lower_def lower_char_def

lemma lower_registry:
  "lower ''ShuffleNet'' = ''shufflenet'' \<and> lower ''MobileNetV3'' = ''mobilenetv3''
   \<and> lower ''EfficientNet'' = ''efficientnet'' \<and> lower ''CustomCNN1'' = ''customcnn1''
   \<and> lower ''CustomCNN2'' = ''customcnn2'' \<and> lower ''CustomCNN3'' = ''customcnn3''
   \<and> lower ''BinaryCNN_Light'' = ''binarycnn_light''
   \<and> lower ''BinaryCNN_Deep'' = ''binarycnn_deep''
   \<and> lower ''BinaryCNN_Efficient'' = ''binarycnn_efficient''"
  by code_simp

lemma lower_candidates:
  "lower ''unknown_model_v3'' = ''unknown_model_v3'' \<and> lower ''CustomCNN'' = ''customcnn''"
  by code_simp

lemma candidate_names:
  "candidate_name ''BinaryCNN_Light_best.pth'' = ''BinaryCNN_Light''
   \<and> candidate_name ''unknown_model_v3.pth'' = ''unknown_model_v3''
   \<and> candidate_name ''CustomCNN_best.pth'' = ''CustomCNN''
   \<and> candidate_name ''CustomCNN_checkpoint.pth'' = ''CustomCNN''
   \<and> candidate_name ''CustomCNN1_best.pth'' = ''CustomCNN1''"
  by (simp add: candidate_name_def stem_def)

lemmas name_eval = name_matches_def lower_registry lower_candidates py_in_simps

lemma light_matches:
  "\<not> name_matches ''ShuffleNet'' ''BinaryCNN_Light''
   \<and> \<not> name_matches ''MobileNetV3'' ''BinaryCNN_Light''
   \<and> \<not> name_matches ''EfficientNet'' ''BinaryCNN_Light''
   \<and> \<not> name_matches ''CustomCNN1'' ''BinaryCNN_Light''
   \<and> \<not> name_matches ''CustomCNN2'' ''BinaryCNN_Light''
   \<and> \<not> name_matches ''CustomCNN3'' ''BinaryCNN_Light''
   \<and> name_matches ''BinaryCNN_Light'' ''BinaryCNN_Light''"
  by (simp add: name_eval)

lemma unknown_matches:
  "\<not> name_matches ''ShuffleNet'' ''unknown_model_v3''
   \<and> \<not> name_matches ''MobileNetV3'' ''unknown_model_v3''
   \<and> \<not> name_matches ''EfficientNet'' ''unknown_model_v3''
   \<and> \<not> name_matches ''CustomCNN1'' ''unknown_model_v3''
   \<and> \<not> name_matches ''CustomCNN2'' ''unknown_model_v3''
   \<and> \<not> name_matches ''CustomCNN3'' ''unknown_model_v3''
   \<and> \<not> name_matches ''BinaryCNN_Light'' ''unknown_model_v3''
   \<and> \<not> name_matches ''BinaryCNN_Deep'' ''unknown_model_v3''
   \<and> \<not> name_matches ''BinaryCNN_Efficient'' ''unknown_model_v3''"
  by (simp add: name_eval)

lemma custom_matches:
  "\<not> name_matches ''ShuffleNet'' ''CustomCNN''
   \<and> \<not> name_matches ''MobileNetV3'' ''CustomCNN''
   \<and> \<not> name_matches ''EfficientNet'' ''CustomCNN''
   \<and> name_matches ''CustomCNN1'' ''CustomCNN''
   \<and> name_matches ''CustomCNN2'' ''CustomCNN''"
  by (simp add: name_eval)

lemma custom1_matches:
  "\<not> name_matches ''ShuffleNet'' ''CustomCNN1''
   \<and> \<not> name_matches ''MobileNetV3'' ''CustomCNN1''
   \<and> \<not> name_matches ''EfficientNet'' ''CustomCNN1''
   \<and> name_matches ''CustomCNN1'' ''CustomCNN1''"
  by (simp add: name_eval)

section \<open>Normalisation unwraps the known containers\<close>

lemma scan_wrapper_keys_find:
  "scan_wrapper_keys items =
     (case find (\<lambda>(k, v). wrapper_key k) items of Some (k, v) \<Rightarrow> v | None \<Rightarrow> PyNone)"
  by (induction items) auto

text \<open>
  C3, as the code has it. Normalisation is a total function of the artifact. An artifact
  that is no dict is returned as it is. A dict yields the value under the first of the keys
  \<open>model_state_dict\<close>, \<open>state_dict\<close>, \<open>model\<close> that it has. With none of them it yields the
  value of its first key that contains \<open>state_dict\<close> or \<open>model\<close> in lower case, unless that
  value is \<open>None\<close>; when that value is \<open>None\<close>, or no key qualifies, it yields the dict itself.
\<close>

theorem normalize_checkpoint_cases:
  "((\<forall>items. checkpoint \<noteq> PyDict items) \<longrightarrow> normalize_checkpoint checkpoint = checkpoint)
   \<and> (map_of items ''model_state_dict'' = Some v \<longrightarrow> normalize_checkpoint (PyDict items) = v)
   \<and> (map_of items ''model_state_dict'' = None \<longrightarrow> map_of items ''state_dict'' = Some v
        \<longrightarrow> normalize_checkpoint (PyDict items) = v)
   \<and> (map_of items ''model_state_dict'' = None \<longrightarrow> map_of items ''state_dict'' = None
        \<longrightarrow> map_of items ''model'' = Some v \<longrightarrow> normalize_checkpoint (PyDict items) = v)
   \<and> (map_of items ''model_state_dict'' = None \<longrightarrow> map_of items ''state_dict'' = None
        \<longrightarrow> map_of items ''model'' = None \<longrightarrow>
          normalize_checkpoint (PyDict items) =
            (case find (\<lambda>(k, v). wrapper_key k) items of
               Some (k, w) \<Rightarrow> if w = PyNone then PyDict items else w
             | None \<Rightarrow> PyDict items))"
proof (intro conjI impI)
  assume "\<forall>items. checkpoint \<noteq> PyDict items"
  then show "normalize_checkpoint checkpoint = checkpoint"
    by (cases checkpoint) (simp_all add: normalize_checkpoint_def)
next
  assume "map_of items ''model_state_dict'' = Some v"
  then show "normalize_checkpoint (PyDict items) = v"
    by (simp add: normalize_checkpoint_def)
next
  assume "map_of items ''model_state_dict'' = None" "map_of items ''state_dict'' = Some v"
  then show "normalize_checkpoint (PyDict items) = v"
    by (simp add: normalize_checkpoint_def)
next
  assume "map_of items ''model_state_dict'' = None" "map_of items ''state_dict'' = None"
    "map_of items ''model'' = Some v"
  then show "normalize_checkpoint (PyDict items) = v"
    by (simp add: normalize_checkpoint_def)
next
  assume "map_of items ''model_state_dict'' = None" "map_of items ''state_dict'' = None"
    "map_of items ''model'' = None"
  then show "normalize_checkpoint (PyDict items) =
            (case find (\<lambda>(k, v). wrapper_key k) items of
               Some (k, w) \<Rightarrow> if w = PyNone then PyDict items else w
             | None \<Rightarrow> PyDict items)"
    by (simp add: normalize_checkpoint_def scan_wrapper_keys_find Let_def split: option.splits)
qed

text \<open>
  The theorem at an object that is no dict, at a dict with \<open>model_state_dict\<close>, at a dict
  whose second key \<open>Best_Model\<close> qualifies, and at a bare parameter map.
\<close>

theorem normalize_checkpoint_cases_witness:
  "(\<forall>items. (PyOther :: unit pyobj) \<noteq> PyDict items)
   \<and> normalize_checkpoint (PyOther :: unit pyobj) = PyOther
   \<and> map_of [(''epoch'', PyOther), (''model_state_dict'', as_state_dict [(''fc.weight'', Tensor [5, 128] ())])]
        ''model_state_dict'' = Some (as_state_dict [(''fc.weight'', Tensor [5, 128] ())])
   \<and> normalize_checkpoint (PyDict [(''epoch'', PyOther),
                          (''model_state_dict'', as_state_dict [(''fc.weight'', Tensor [5, 128] ())])])
        = as_state_dict [(''fc.weight'', Tensor [5, 128] ())]
   \<and> find (\<lambda>(k, v). wrapper_key k)
        [(''epoch'', PyOther), (''Best_Model'', as_state_dict [(''fc.weight'', Tensor [5, 128] ())])]
        = Some (''Best_Model'', as_state_dict [(''fc.weight'', Tensor [5, 128] ())])
   \<and> normalize_checkpoint (PyDict [(''epoch'', PyOther),
                          (''Best_Model'', as_state_dict [(''fc.weight'', Tensor [5, 128] ())])])
        = as_state_dict [(''fc.weight'', Tensor [5, 128] ())]
   \<and> normalize_checkpoint (PyDict [(''fc.weight'', PyTensor (Tensor [5, 128] ()))])
        = PyDict [(''fc.weight'', PyTensor (Tensor [5, 128] ()))]"
  using normalize_checkpoint_cases [of "PyOther :: unit pyobj"
      "[(''epoch'', PyOther), (''model_state_dict'', as_state_dict [(''fc.weight'', Tensor [5, 128] ())])]"
      "as_state_dict [(''fc.weight'', Tensor [5, 128] ())]"]
    normalize_checkpoint_cases [of "PyOther :: unit pyobj"
      "[(''epoch'', PyOther), (''Best_Model'', as_state_dict [(''fc.weight'', Tensor [5, 128] ())])]"
      "PyOther"]
    normalize_checkpoint_cases [of "PyOther :: unit pyobj"
      "[(''fc.weight'', PyTensor (Tensor [5, 128] ()))]" "PyOther"]
  by (simp add: wrapper_key_def str_simps as_state_dict_def)

text \<open>
  C3 as stated fails where the first qualifying key holds \<open>None\<close>: the dict has none of the
  three priority keys, its first key \<open>ema_model\<close> contains \<open>model\<close> and holds \<open>None\<close>, and
  normalisation returns the dict itself, not that value.
\<close>

theorem normalize_checkpoint_none_value_counterexample:
  "map_of [(''ema_model'', PyNone), (''fc.weight'', PyTensor (Tensor [5, 128] ()))]
      ''model_state_dict'' = None
   \<and> map_of [(''ema_model'', PyNone), (''fc.weight'', PyTensor (Tensor [5, 128] ()))]
      ''state_dict'' = None
   \<and> map_of [(''ema_model'', PyNone), (''fc.weight'', PyTensor (Tensor [5, 128] ()))]
      ''model'' = None
   \<and> wrapper_key ''ema_model''
   \<and> normalize_checkpoint (PyDict [(''ema_model'', PyNone), (''fc.weight'', PyTensor (Tensor [5, 128] ()))])
      = PyDict [(''ema_model'', PyNone), (''fc.weight'', PyTensor (Tensor [5, 128] ()))]
   \<and> PyDict [(''ema_model'', PyNone), (''fc.weight'', PyTensor (Tensor [5, 128] ()))]
      \<noteq> (PyNone :: unit pyobj)"
  by (simp add: normalize_checkpoint_def wrapper_key_def str_simps)

section \<open>Classifier candidates and their layer index\<close>

lemma collect_candidates_param_map:
  "collect_candidates (map (\<lambda>(k, t). (k, PyTensor t)) pm) =
     Inr (map (\<lambda>(k, t). \<lparr>key = k, output_dim = shape t ! 0, input_dim = shape t ! 1,
                           index = extract_layer_index k\<rparr>)
            (filter (\<lambda>(k, t). py_in ''weight'' k \<and> length (shape t) = 2 \<and> classifier_term k) pm))"
proof (induction pm)
  case Nil
  then show ?case by simp
next
  case (Cons p pm)
  obtain k t where p: "p = (k, t)" by (cases p)
  show ?case
    unfolding p using Cons.IH by (simp del: One_nat_def)
qed

lemma not_digit_dot: "\<not> is_digit CHR ''.''"
  by (simp add: is_digit_def)

lemma takeWhile_digits:
  "\<forall>c\<in>set ds. is_digit c \<Longrightarrow> takeWhile is_digit (ds @ CHR ''.'' # post) = ds"
  by (induction ds) (auto simp: not_digit_dot)

lemma dropWhile_digits:
  "\<forall>c\<in>set ds. is_digit c \<Longrightarrow> dropWhile is_digit (ds @ CHR ''.'' # post) = CHR ''.'' # post"
  by (induction ds) (auto simp: not_digit_dot)

lemma re_search_head:
  "ds \<noteq> [] \<Longrightarrow> \<forall>c\<in>set ds. is_digit c \<Longrightarrow>
     re_search_dot_digits_dot (CHR ''.'' # ds @ CHR ''.'' # post) = Some ds"
  using takeWhile_digits [of ds post] dropWhile_digits [of ds post]
  by (simp only: re_search_dot_digits_dot.simps list.case simp_thms if_True)

lemma head_match_append:
  assumes "x \<in> set xs" "\<not> is_digit x"
  shows "takeWhile is_digit (xs @ ys) = takeWhile is_digit xs"
    and "(case dropWhile is_digit (xs @ ys) of [] \<Rightarrow> False | d # _ \<Rightarrow> d = CHR ''.'')
         = (case dropWhile is_digit xs of [] \<Rightarrow> False | d # _ \<Rightarrow> d = CHR ''.'')"
proof -
  show "takeWhile is_digit (xs @ ys) = takeWhile is_digit xs"
    using assms by (rule takeWhile_append1)
  have dw: "dropWhile is_digit (xs @ ys) = dropWhile is_digit xs @ ys"
    using assms by (rule dropWhile_append1)
  have "dropWhile is_digit xs \<noteq> []"
    using assms by (auto simp: dropWhile_eq_Nil_conv)
  then show "(case dropWhile is_digit (xs @ ys) of [] \<Rightarrow> False | d # _ \<Rightarrow> d = CHR ''.'')
         = (case dropWhile is_digit xs of [] \<Rightarrow> False | d # _ \<Rightarrow> d = CHR ''.'')"
    unfolding dw by (cases "dropWhile is_digit xs") auto
qed

lemma re_search_append:
  "re_search_dot_digits_dot (pre @ CHR ''.'' # ys) =
     (case re_search_dot_digits_dot (pre @ ''.'') of
        Some ds \<Rightarrow> Some ds
      | None \<Rightarrow> re_search_dot_digits_dot (CHR ''.'' # ys))"
proof (induction pre)
  case Nil
  show ?case by simp
next
  case (Cons c pre)
  define short where "short = pre @ ''.''"
  define long where "long = pre @ CHR ''.'' # ys"
  have dot: "CHR ''.'' \<in> set short" by (simp add: short_def)
  have eq: "long = short @ ys" by (simp add: short_def long_def)
  have tw: "takeWhile is_digit long = takeWhile is_digit short"
    unfolding eq using dot not_digit_dot by (rule head_match_append(1))
  have dw: "(case dropWhile is_digit long of [] \<Rightarrow> False | d # _ \<Rightarrow> d = CHR ''.'')
         = (case dropWhile is_digit short of [] \<Rightarrow> False | d # _ \<Rightarrow> d = CHR ''.'')"
    unfolding eq using dot not_digit_dot by (rule head_match_append(2))
  have IH: "re_search_dot_digits_dot long =
     (case re_search_dot_digits_dot short of
        Some ds \<Rightarrow> Some ds
      | None \<Rightarrow> re_search_dot_digits_dot (CHR ''.'' # ys))"
    unfolding short_def long_def by (rule Cons.IH)
  have "re_search_dot_digits_dot (c # long) =
     (case re_search_dot_digits_dot (c # short) of
        Some ds \<Rightarrow> Some ds
      | None \<Rightarrow> re_search_dot_digits_dot (CHR ''.'' # ys))"
  proof (cases "c = CHR ''.'' \<and> takeWhile is_digit short \<noteq> []
         \<and> (case dropWhile is_digit short of [] \<Rightarrow> False | d # _ \<Rightarrow> d = CHR ''.'')")
    case True
    then have "re_search_dot_digits_dot (c # long) = Some (takeWhile is_digit short)"
      using tw dw by (simp only: re_search_dot_digits_dot.simps simp_thms if_True)
    moreover from True have "re_search_dot_digits_dot (c # short) = Some (takeWhile is_digit short)"
      by (simp only: re_search_dot_digits_dot.simps simp_thms if_True)
    ultimately show ?thesis by simp
  next
    case False
    then have "re_search_dot_digits_dot (c # long) = re_search_dot_digits_dot long"
      using tw dw by (simp only: re_search_dot_digits_dot.simps if_False)
    moreover from False have "re_search_dot_digits_dot (c # short) = re_search_dot_digits_dot short"
      by (simp only: re_search_dot_digits_dot.simps if_False)
    ultimately show ?thesis using IH by simp
  qed
  then show ?case by (simp add: short_def long_def)
qed

lemma re_search_first_match:
  assumes "ds \<noteq> []" "\<forall>c\<in>set ds. is_digit c" "re_search_dot_digits_dot (pre @ ''.'') = None"
  shows "re_search_dot_digits_dot (pre @ ''.'' @ ds @ ''.'' @ post) = Some ds"
  using re_search_append [of pre "ds @ ''.'' @ post"] re_search_head [OF assms(1,2), of post] assms(3)
  by simp

lemma re_search_Some_decomp:
  "re_search_dot_digits_dot s = Some ds \<Longrightarrow>
     \<exists>pre post. s = pre @ ''.'' @ ds @ ''.'' @ post \<and> ds \<noteq> [] \<and> (\<forall>c\<in>set ds. is_digit c)"
proof (induction s)
  case Nil
  then show ?case by simp
next
  case (Cons c cs)
  show ?case
  proof (cases "c = CHR ''.'' \<and> takeWhile is_digit cs \<noteq> []
         \<and> (case dropWhile is_digit cs of [] \<Rightarrow> False | d # _ \<Rightarrow> d = CHR ''.'')")
    case True
    then obtain rest where dw: "dropWhile is_digit cs = CHR ''.'' # rest"
      by (auto split: list.splits)
    from True Cons.prems have ds: "ds = takeWhile is_digit cs" by simp
    have "cs = takeWhile is_digit cs @ dropWhile is_digit cs" by simp
    with dw ds have "c # cs = [] @ ''.'' @ ds @ ''.'' @ rest" using True by simp
    moreover have "ds \<noteq> []" using ds True by simp
    moreover have "\<forall>c\<in>set ds. is_digit c" using ds by (auto dest: set_takeWhileD)
    ultimately show ?thesis by blast
  next
    case False
    with Cons.prems have "re_search_dot_digits_dot cs = Some ds" by auto
    from Cons.IH [OF this] obtain pre post where
      p: "cs = pre @ ''.'' @ ds @ ''.'' @ post" "ds \<noteq> []" "\<forall>c\<in>set ds. is_digit c"
      by blast
    then have "c # cs = (c # pre) @ ''.'' @ ds @ ''.'' @ post \<and> ds \<noteq> [] \<and> (\<forall>c\<in>set ds. is_digit c)"
      by simp
    then show ?thesis by blast
  qed
qed

lemma dot_digits_dot_iff: "dot_digits_dot s \<longleftrightarrow> re_search_dot_digits_dot s \<noteq> None"
proof
  assume "dot_digits_dot s"
  then obtain pre ds post where
    s: "s = pre @ ''.'' @ ds @ ''.'' @ post" and ds: "ds \<noteq> []" "\<forall>c\<in>set ds. is_digit c"
    unfolding dot_digits_dot_def by blast
  show "re_search_dot_digits_dot s \<noteq> None"
    using re_search_append [of pre "ds @ ''.'' @ post"] re_search_head [OF ds, of post]
    unfolding s by (simp split: option.splits)
next
  assume "re_search_dot_digits_dot s \<noteq> None"
  then obtain ds where "re_search_dot_digits_dot s = Some ds" by auto
  from re_search_Some_decomp [OF this] show "dot_digits_dot s"
    unfolding dot_digits_dot_def by blast
qed

text \<open>
  C4, as the code has it. The candidates collected from a parameter map are, in order,
  exactly the entries whose key contains \<open>weight\<close>, whose key contains \<open>classifier\<close>, \<open>fc\<close>
  or \<open>head\<close> in lower case, and whose shape has exactly two dimensions; each carries both
  dimensions and its layer index. The layer index is the number written between the first
  pair of dots that enclose a non-empty run of digits, and 0 when the key has no such pair.
\<close>

theorem collect_candidates_weight_layers:
  "collect_candidates (map (\<lambda>(k, t). (k, PyTensor t)) pm) =
     Inr (map (\<lambda>(k, t). \<lparr>key = k, output_dim = shape t ! 0, input_dim = shape t ! 1,
                           index = extract_layer_index k\<rparr>)
            (filter (\<lambda>(k, t). py_in ''weight'' k \<and> length (shape t) = 2 \<and> classifier_term k) pm))
   \<and> (ds \<noteq> [] \<longrightarrow> (\<forall>c\<in>set ds. is_digit c) \<longrightarrow> \<not> dot_digits_dot (pre @ ''.'') \<longrightarrow>
        extract_layer_index (pre @ ''.'' @ ds @ ''.'' @ post) = int_of_digits ds)
   \<and> (\<not> dot_digits_dot k \<longrightarrow> extract_layer_index k = 0)"
proof (intro conjI impI)
  show "collect_candidates (map (\<lambda>(k, t). (k, PyTensor t)) pm) =
     Inr (map (\<lambda>(k, t). \<lparr>key = k, output_dim = shape t ! 0, input_dim = shape t ! 1,
                           index = extract_layer_index k\<rparr>)
            (filter (\<lambda>(k, t). py_in ''weight'' k \<and> length (shape t) = 2 \<and> classifier_term k) pm))"
    by (rule collect_candidates_param_map)
next
  assume "ds \<noteq> []" "\<forall>c\<in>set ds. is_digit c" "\<not> dot_digits_dot (pre @ ''.'')"
  then have "re_search_dot_digits_dot (pre @ ''.'' @ ds @ ''.'' @ post) = Some ds"
    by (intro re_search_first_match) (simp_all add: dot_digits_dot_iff)
  then show "extract_layer_index (pre @ ''.'' @ ds @ ''.'' @ post) = int_of_digits ds"
    by (simp add: extract_layer_index_def)
next
  assume "\<not> dot_digits_dot k"
  then show "extract_layer_index k = 0"
    by (simp add: extract_layer_index_def dot_digits_dot_iff)
qed

text \<open>
  The theorem at the map of a small network, at the key \<open>layer4.fc.12.weight\<close> and at
  \<open>fc.weight\<close>.
\<close>

theorem collect_candidates_weight_layers_witness:
  "collect_candidates
     (map (\<lambda>(k, t). (k, PyTensor t))
        [(''features.0.weight'', Tensor [32, 3, 3, 3] ()),
         (''classifier.1.weight'', Tensor [128, 256] ()),
         (''classifier.4.weight'', Tensor [5, 128] ()),
         (''classifier.4.bias'', Tensor [5] ())])
     = Inr [\<lparr>key = ''classifier.1.weight'', output_dim = 128, input_dim = 256, index = 1\<rparr>,
            \<lparr>key = ''classifier.4.weight'', output_dim = 5, input_dim = 128, index = 4\<rparr>]
   \<and> \<not> dot_digits_dot (''layer4.fc'' @ ''.'')
   \<and> extract_layer_index (''layer4.fc'' @ ''.'' @ ''12'' @ ''.'' @ ''weight'') = 12
   \<and> \<not> dot_digits_dot ''fc.weight''
   \<and> extract_layer_index ''fc.weight'' = 0"
  using collect_candidates_weight_layers
    [of "[(''features.0.weight'', Tensor [32, 3, 3, 3] ()),
          (''classifier.1.weight'', Tensor [128, 256] ()),
          (''classifier.4.weight'', Tensor [5, 128] ()),
          (''classifier.4.bias'', Tensor [5] ())]" "''12''" "''layer4.fc''" "''weight''" "''fc.weight''"]
  by (simp add: dot_digits_dot_iff is_digit_def classifier_term_def str_simps
      extract_layer_index_def int_of_digits_def digit_val_def)

text \<open>
  C4 as stated fails twice: the two-dimensional entry \<open>head.proj\<close> names a head but is no
  candidate, its key lacking \<open>weight\<close>; and the candidate \<open>fc1.weight\<close> has layer index 0
  although its key embeds the integer 1.
\<close>

theorem collect_candidates_counterexample:
  "classifier_term ''head.proj''
   \<and> collect_candidates [(''head.proj'', PyTensor (Tensor [5, 128] ()))] = Inr []
   \<and> collect_candidates [(''fc1.weight'', PyTensor (Tensor [5, 128] ()))]
       = Inr [\<lparr>key = ''fc1.weight'', output_dim = 5, input_dim = 128, index = 0\<rparr>]"
  by (simp add: classifier_term_def str_simps extract_layer_index_def is_digit_def)

section \<open>Variant selection\<close>

lemma shape_pair: "length s = 2 \<and> s ! 0 = a \<and> s ! 1 = b \<longleftrightarrow> s = [a, b]"
  by (cases s; cases "tl s"; cases "tl (tl s)") auto

lemma find_simple_variant_param_map:
  "find_simple_variant (map (\<lambda>(k, t). (k, PyTensor t)) pm) n =
     Inr (if \<exists>(k, t)\<in>set pm. py_in ''classifier.4.weight'' k \<and> shape t = [n, 128]
          then ''simple'' else ''default'')"
proof (induction pm)
  case Nil
  then show ?case by simp
next
  case (Cons p pm)
  obtain k t where p: "p = (k, t)" by (cases p)
  show ?case
    unfolding p using Cons.IH shape_pair [of "shape t" n 128]
    by (auto simp del: One_nat_def)
qed

text \<open>
  C5, as the code has it. Every family but \<open>BinaryCNN_Deep\<close> is built with the variant
  \<open>default\<close>, whatever the parameter map. For \<open>BinaryCNN_Deep\<close> the variant is \<open>simple\<close> if
  and only if the parameter map has an entry whose key contains \<open>classifier.4.weight\<close> and
  whose shape is exactly \<open>[num_classes, 128]\<close>, \<open>num_classes\<close> being the class count in
  force; otherwise it is \<open>default\<close>.
\<close>

theorem select_variant_simple_iff:
  "(model_name \<noteq> ''BinaryCNN_Deep'' \<longrightarrow> select_variant model_name state_dict n = Inr ''default'')
   \<and> select_variant ''BinaryCNN_Deep'' (Some (as_state_dict pm)) n =
       Inr (if \<exists>(k, t)\<in>set pm. py_in ''classifier.4.weight'' k \<and> shape t = [n, 128]
            then ''simple'' else ''default'')"
  by (simp add: select_variant_def as_state_dict_def find_simple_variant_param_map)

text \<open>
  The theorem at \<open>CustomCNN1\<close> and at the two heads that \<open>BinaryCNN_Deep\<close> builds for two
  classes: the simple head is recognised, the default head is not.
\<close>

theorem select_variant_simple_iff_witness:
  "''CustomCNN1'' \<noteq> ''BinaryCNN_Deep''
   \<and> select_variant ''CustomCNN1'' (None :: unit pyobj option) 2 = Inr ''default''
   \<and> select_variant ''BinaryCNN_Deep''
        (Some (as_state_dict
           (map (\<lambda>(k, s). (k, Tensor s ())) (BinaryCNN_Deep_classifier 2 ''simple'')))) 2
       = Inr ''simple''
   \<and> select_variant ''BinaryCNN_Deep''
        (Some (as_state_dict
           (map (\<lambda>(k, s). (k, Tensor s ())) (BinaryCNN_Deep_classifier 2 ''default'')))) 2
       = Inr ''default''"
  using select_variant_simple_iff [of "''CustomCNN1''" "None :: unit pyobj option" 2
      "map (\<lambda>(k, s). (k, Tensor s ())) (BinaryCNN_Deep_classifier 2 ''simple'')"]
    select_variant_simple_iff [of "''CustomCNN1''" "None :: unit pyobj option" 2
      "map (\<lambda>(k, s). (k, Tensor s ())) (BinaryCNN_Deep_classifier 2 ''default'')"]
  by (simp add: BinaryCNN_Deep_classifier_def py_in_simps)

text \<open>
  C5 as stated fails where the first dimension differs from the class count: the map has
  \<open>classifier.4.weight\<close> of shape \<open>[64, 128]\<close>, two-dimensional with second dimension 128,
  the class count detected from it is 2, and the default variant is selected.
\<close>

theorem select_variant_first_dim_counterexample:
  "detect_num_classes_from_checkpoint
     (as_state_dict [(''classifier.1.weight'', Tensor [128, 512] ()),
                     (''classifier.4.weight'', Tensor [64, 128] ()),
                     (''classifier.7.weight'', Tensor [2, 64] ())]) = Inr (Some 2)
   \<and> py_in ''classifier.4.weight'' ''classifier.4.weight''
   \<and> length [64, 128 :: nat] = 2 \<and> [64, 128 :: nat] ! 1 = 128
   \<and> select_variant ''BinaryCNN_Deep''
        (Some (as_state_dict [(''classifier.1.weight'', Tensor [128, 512] ()),
                              (''classifier.4.weight'', Tensor [64, 128] ()),
                              (''classifier.7.weight'', Tensor [2, 64] ())])) 2
       = Inr ''default''"
  by (simp add: detect_num_classes_from_checkpoint_def as_state_dict_def select_variant_def
      classifier_term_def str_simps extract_layer_index_def is_digit_def int_of_digits_def
      digit_val_def select_num_classes_def sort_by_index_desc_def reasonable_def)

section \<open>The discovery scan\<close>

lemma match_file_find:
  "match_file cfgs file st =
     (case find (\<lambda>(c, cfg). name_matches c (candidate_name file) \<and> model_paths st c = None) cfgs of
        None \<Rightarrow> st
      | Some (c, cfg) \<Rightarrow>
          st\<lparr>model_paths := (model_paths st)(c \<mapsto> file),
             model_configs := (model_configs st)(c \<mapsto> cfg)\<rparr>)"
proof (induction cfgs)
  case Nil
  show ?case by simp
next
  case (Cons p cfgs)
  obtain c cfg where p: "p = (c, cfg)" by (cases p)
  show ?case
    unfolding p using Cons.IH by simp
qed

lemma match_file_keeps_bound:
  "model_paths st c = Some p \<Longrightarrow> model_paths (match_file cfgs file st) c = Some p"
  by (induction cfgs) auto

lemma scan_files_keeps_bound:
  "model_paths st c = Some p \<Longrightarrow> model_paths (scan_files files st) c = Some p"
  by (induction files arbitrary: st) (auto simp: match_file_keeps_bound)

lemma scan_light:
  "model_paths (scan_for_models [''BinaryCNN_Light_best.pth''] st)
     = [''BinaryCNN_Light'' \<mapsto> ''BinaryCNN_Light_best.pth'']"
  by (simp add: scan_for_models_def MODEL_CONFIGS_def candidate_names light_matches)

lemma scan_unknown:
  "model_paths (scan_for_models [''unknown_model_v3.pth''] st) = Map.empty"
  by (simp add: scan_for_models_def MODEL_CONFIGS_def candidate_names unknown_matches)

text \<open>
  C9, as the code has it. A table maps each symbolic name to at most one path. A name that
  is bound keeps its path through the rest of the scan. A file goes to the first registered
  name that matches it and is not yet bound, and changes nothing else; a file that no
  registered name matches leaves the tables as they are. \<open>BinaryCNN_Light_best.pth\<close> binds
  \<open>BinaryCNN_Light\<close> and nothing else; \<open>unknown_model_v3.pth\<close> binds nothing.
\<close>

theorem discovery_scan_binding:
  "(model_paths st c = Some p \<longrightarrow> model_paths (scan_files files st) c = Some p)
   \<and> match_file MODEL_CONFIGS file st =
       (case find (\<lambda>(c, cfg). name_matches c (candidate_name file) \<and> model_paths st c = None)
               MODEL_CONFIGS of
          None \<Rightarrow> st
        | Some (c, cfg) \<Rightarrow>
            st\<lparr>model_paths := (model_paths st)(c \<mapsto> file),
               model_configs := (model_configs st)(c \<mapsto> cfg)\<rparr>)
   \<and> ((\<forall>(c, cfg)\<in>set MODEL_CONFIGS. \<not> name_matches c (candidate_name file))
        \<longrightarrow> match_file MODEL_CONFIGS file st = st)
   \<and> model_paths (scan_for_models [''BinaryCNN_Light_best.pth''] st)
       = [''BinaryCNN_Light'' \<mapsto> ''BinaryCNN_Light_best.pth'']
   \<and> model_paths (scan_for_models [''unknown_model_v3.pth''] st) = Map.empty"
proof (intro conjI impI)
  assume "model_paths st c = Some p"
  then show "model_paths (scan_files files st) c = Some p"
    by (rule scan_files_keeps_bound)
next
  show "match_file MODEL_CONFIGS file st =
       (case find (\<lambda>(c, cfg). name_matches c (candidate_name file) \<and> model_paths st c = None)
               MODEL_CONFIGS of
          None \<Rightarrow> st
        | Some (c, cfg) \<Rightarrow>
            st\<lparr>model_paths := (model_paths st)(c \<mapsto> file),
               model_configs := (model_configs st)(c \<mapsto> cfg)\<rparr>)"
    by (rule match_file_find)
next
  assume "\<forall>(c, cfg)\<in>set MODEL_CONFIGS. \<not> name_matches c (candidate_name file)"
  then have "find (\<lambda>(c, cfg). name_matches c (candidate_name file) \<and> model_paths st c = None)
               MODEL_CONFIGS = None"
    by (auto simp: find_None_iff)
  then show "match_file MODEL_CONFIGS file st = st"
    by (simp add: match_file_find)
next
  show "model_paths (scan_for_models [''BinaryCNN_Light_best.pth''] st)
       = [''BinaryCNN_Light'' \<mapsto> ''BinaryCNN_Light_best.pth'']"
    by (rule scan_light)
next
  show "model_paths (scan_for_models [''unknown_model_v3.pth''] st) = Map.empty"
    by (rule scan_unknown)
qed

text \<open>
  The theorem after a scan of \<open>BinaryCNN_Light_best.pth\<close>: a second file of the same
  model does not rebind the name, and \<open>unknown_model_v3.pth\<close> is skipped.
\<close>

theorem discovery_scan_binding_witness:
  "model_paths (scan_for_models [''BinaryCNN_Light_best.pth''] (initial_state :: unit state))
      ''BinaryCNN_Light'' = Some ''BinaryCNN_Light_best.pth''
   \<and> model_paths
        (scan_files [''BinaryCNN_Light_checkpoint.pth'']
           (scan_for_models [''BinaryCNN_Light_best.pth''] (initial_state :: unit state)))
        ''BinaryCNN_Light'' = Some ''BinaryCNN_Light_best.pth''
   \<and> match_file MODEL_CONFIGS ''unknown_model_v3.pth''
        (scan_for_models [''BinaryCNN_Light_best.pth''] (initial_state :: unit state))
      = scan_for_models [''BinaryCNN_Light_best.pth''] (initial_state :: unit state)"
  using discovery_scan_binding
    [of "scan_for_models [''BinaryCNN_Light_best.pth''] (initial_state :: unit state)"
        "''BinaryCNN_Light''" "''BinaryCNN_Light_best.pth''"
        "[''BinaryCNN_Light_checkpoint.pth'']" "''unknown_model_v3.pth''"]
  by (simp add: scan_light MODEL_CONFIGS_def candidate_names unknown_matches)

text \<open>
  C9 as stated fails where the first matching name is already bound: \<open>CustomCNN1\<close> is the
  first registered name that matches \<open>CustomCNN_checkpoint.pth\<close>, it is bound to the
  earlier file, and the file goes to \<open>CustomCNN2\<close>.
\<close>

theorem discovery_scan_first_match_counterexample:
  "\<not> name_matches ''ShuffleNet'' (candidate_name ''CustomCNN_checkpoint.pth'')
   \<and> \<not> name_matches ''MobileNetV3'' (candidate_name ''CustomCNN_checkpoint.pth'')
   \<and> \<not> name_matches ''EfficientNet'' (candidate_name ''CustomCNN_checkpoint.pth'')
   \<and> name_matches ''CustomCNN1'' (candidate_name ''CustomCNN_checkpoint.pth'')
   \<and> model_paths (scan_for_models [''CustomCNN_best.pth'', ''CustomCNN_checkpoint.pth'']
                     (initial_state :: unit state)) ''CustomCNN1''
       = Some ''CustomCNN_best.pth''
   \<and> model_paths (scan_for_models [''CustomCNN_best.pth'', ''CustomCNN_checkpoint.pth'']
                     (initial_state :: unit state)) ''CustomCNN2''
       = Some ''CustomCNN_checkpoint.pth''"
  by (simp add: scan_for_models_def MODEL_CONFIGS_def candidate_names custom_matches)

section \<open>Binding under a shape mismatch\<close>

lemma map_of_tensors:
  "map_of (map (\<lambda>(k, t). (k, PyTensor t)) pm) k = map_option PyTensor (map_of pm k)"
  by (simp add: map_of_map)

lemma assign_param_tensors:
  "assign_param (map (\<lambda>(k, t). (k, PyTensor t)) pm) (k, p) =
     (k, case map_of pm k of Some t \<Rightarrow> if shape t = shape p then t else p | None \<Rightarrow> p)"
  by (simp add: assign_param_def map_of_tensors split: option.splits)

lemma size_mismatch_tensors:
  "size_mismatch (map (\<lambda>(k, t). (k, PyTensor t)) pm) (k, p) =
     (case map_of pm k of Some t \<Rightarrow> shape t \<noteq> shape p | None \<Rightarrow> False)"
  by (simp add: size_mismatch_def map_of_tensors split: option.splits)

lemma not_a_tensor_tensors:
  "\<not> not_a_tensor (map (\<lambda>(k, t). (k, PyTensor t)) pm) q"
  by (simp add: not_a_tensor_def map_of_tensors split: option.splits)

lemma map_of_filter_distinct:
  "distinct (map fst xs) \<Longrightarrow>
     map_of (filter Q xs) k =
       (case map_of xs k of Some v \<Rightarrow> if Q (k, v) then Some v else None | None \<Rightarrow> None)"
proof (induction xs)
  case Nil
  show ?case by simp
next
  case (Cons x xs)
  obtain a b where x: "x = (a, b)" by (cases x)
  from Cons.prems have d: "distinct (map fst xs)" and a: "a \<notin> fst ` set xs"
    by (auto simp: x)
  from a have none: "map_of xs a = None" by (simp add: map_of_eq_None_iff)
  show ?case
    using Cons.IH [OF d] none by (auto simp: x)
qed

text \<open>The shapes of the instance stay what the constructor made them.\<close>

lemma map_of_assigned:
  "map_of (map (assign_param sd) ps) k =
     map_option (\<lambda>p. snd (assign_param sd (k, p))) (map_of ps k)"
  by (induction ps) (auto simp: assign_param_def split: option.splits pyobj.splits)

lemma shape_assigned: "shape (snd (assign_param sd (k, p))) = shape p"
  by (auto simp: assign_param_def split: option.splits pyobj.splits)

lemma filter_compatible_tensors:
  assumes "\<And>k. map_option shape (map_of ms1 k) = map_option shape (map_of ms k)"
  shows "filter_compatible ms1 (map (\<lambda>(k, t). (k, PyTensor t)) pm) =
     Inr (map (\<lambda>(k, t). (k, PyTensor t))
            (filter (\<lambda>(k, t). case map_of ms k of Some p \<Rightarrow> shape p = shape t | None \<Rightarrow> False) pm),
          concat (map (\<lambda>(k, t). case map_of ms k of
                           Some p \<Rightarrow> if shape p = shape t then []
                                     else [ShapeMismatch k (shape t) (shape p)]
                         | None \<Rightarrow> [NotInModel k]) pm))"
proof (induction pm)
  case Nil
  show ?case by simp
next
  case (Cons x pm)
  obtain k t where x: "x = (k, t)" by (cases x)
  show ?case
  proof (cases "map_of ms k")
    case None
    with assms [of k] have "map_of ms1 k = None" by simp
    with None show ?thesis using Cons.IH by (simp add: x)
  next
    case (Some p)
    with assms [of k] obtain p1 where p1: "map_of ms1 k = Some p1" "shape p1 = shape p"
      by (cases "map_of ms1 k") auto
    with Some show ?thesis using Cons.IH by (simp add: x)
  qed
qed


lemma assign_twice:
  assumes "distinct (map fst pm)"
  shows "assign_param (map (\<lambda>(k, t). (k, PyTensor t)) (filter Q pm))
           (assign_param (map (\<lambda>(k, t). (k, PyTensor t)) pm) (k, p))
         = (k, case map_of pm k of Some t \<Rightarrow> if shape t = shape p then t else p | None \<Rightarrow> p)"
  by (auto simp: assign_param_tensors map_of_filter_distinct [OF assms] split: option.splits)

lemma load_state_dict_params:
  "params (fst (load_state_dict m sd)) = map (assign_param sd) (params m)"
  by (simp add: load_state_dict_def Let_def)

lemma load_state_dict_arch:
  "arch (fst (load_state_dict m sd)) = arch m
   \<and> out_classes (fst (load_state_dict m sd)) = out_classes m
   \<and> variant_tag (fst (load_state_dict m sd)) = variant_tag m"
  by (simp add: load_state_dict_def Let_def)

lemma load_state_dict_result:
  "snd (load_state_dict m sd) =
     (if filter (size_mismatch sd) (params m) = [] \<and> filter (not_a_tensor sd) (params m) = []
      then Inr (filter (\<lambda>k. map_of sd k = None) (map fst (params m)),
                filter (\<lambda>k. map_of (params m) k = None) (map fst sd))
      else Inl (LoadError (map fst (filter (size_mismatch sd) (params m)))))"
  by (simp add: load_state_dict_def Let_def)

text \<open>
  C2, as the code has it. Let the parameter map \<open>pm\<close> hold under some key \<open>k0\<close> a tensor whose shape differs from
  the shape the instance \<open>m\<close> has under \<open>k0\<close> (each key once in the map and in the instance).
  Then binding returns an instance and diagnostics. Each parameter of the returned instance
  holds the tensor of the map when the map has its key with the very same shape, and what
  the constructor wrote otherwise. \<open>incompatible_keys\<close> lists, in the order of the map,
  every key of the map with a differing shape together with both shapes, and every key of
  the map that the instance lacks as not in the model; the entry of \<open>k0\<close> is among them.
  The instance is still the architecture that was built.
\<close>

theorem load_weights_partial_load:
  assumes dpm: "distinct (map fst pm)" and dm: "distinct (map fst (params m))"
    and k0: "(k0, t0) \<in> set pm" "map_of (params m) k0 = Some p0" "shape t0 \<noteq> shape p0"
  shows "\<exists>m' diag. load_weights m (Some (as_state_dict pm)) = Inr (m', diag)
     \<and> params m' =
         map (\<lambda>(k, p). (k, case map_of pm k of
                              Some t \<Rightarrow> if shape t = shape p then t else p
                            | None \<Rightarrow> p)) (params m)
     \<and> incompatible_keys diag =
         concat (map (\<lambda>(k, t). case map_of (params m) k of
                           Some p \<Rightarrow> if shape p = shape t then []
                                     else [ShapeMismatch k (shape t) (shape p)]
                         | None \<Rightarrow> [NotInModel k]) pm)
     \<and> ShapeMismatch k0 (shape t0) (shape p0) \<in> set (incompatible_keys diag)
     \<and> arch m' = arch m \<and> out_classes m' = out_classes m \<and> variant_tag m' = variant_tag m"
proof -
  define sd where "sd = map (\<lambda>(k, t). (k, PyTensor t)) pm"
  define Q where "Q = (\<lambda>(k, t :: 'a tensor). case map_of (params m) k of
                          Some p \<Rightarrow> shape p = shape t | None \<Rightarrow> False)"
  define compat where "compat = map (\<lambda>(k, t). (k, PyTensor t)) (filter Q pm)"
  define incompat where "incompat =
         concat (map (\<lambda>(k, t). case map_of (params m) k of
                           Some p \<Rightarrow> if shape p = shape t then []
                                     else [ShapeMismatch k (shape t) (shape p)]
                         | None \<Rightarrow> [NotInModel k]) pm)"
  define m1 where "m1 = fst (load_state_dict m sd)"
  define m2 where "m2 = fst (load_state_dict m1 compat)"
  have pm0: "map_of pm k0 = Some t0" using dpm k0(1) by simp
  \<comment> \<open>the first call reports the size mismatch\<close>
  have "(k0, p0) \<in> set (params m)" using k0(2) by (rule map_of_SomeD)
  moreover have "size_mismatch sd (k0, p0)"
    using pm0 k0(3) by (simp add: sd_def size_mismatch_tensors)
  ultimately have mis: "filter (size_mismatch sd) (params m) \<noteq> []"
    by (auto simp: filter_empty_conv)
  have first: "load_state_dict m sd =
      (m1, Inl (LoadError (map fst (filter (size_mismatch sd) (params m)))))"
    using mis load_state_dict_result [of m sd] by (simp add: m1_def prod_eq_iff)
  \<comment> \<open>the partial load filters the map\<close>
  have p1: "params m1 = map (assign_param sd) (params m)"
    by (simp add: m1_def load_state_dict_params)
  have shapes: "\<And>k. map_option shape (map_of (params m1) k) = map_option shape (map_of (params m) k)"
    by (simp add: p1 map_of_assigned option.map_comp comp_def shape_assigned)
  have fc: "filter_compatible (params m1) sd = Inr (compat, incompat)"
    unfolding sd_def compat_def incompat_def Q_def
    by (rule filter_compatible_tensors [OF shapes])
  \<comment> \<open>the second call finds nothing to complain about\<close>
  have no_mis: "filter (size_mismatch compat) (params m1) = []"
  proof -
    have "\<not> size_mismatch compat q" if q: "q \<in> set (params m1)" for q
    proof -
      obtain k p where kp: "(k, p) \<in> set (params m)" and q_eq: "q = assign_param sd (k, p)"
        using q by (auto simp: p1)
      have mk: "map_of (params m) k = Some p" using dm kp by simp
      have qk: "q = (k, snd q)" by (simp add: q_eq assign_param_def split: option.splits pyobj.splits)
      have sq: "shape (snd q) = shape p" by (simp add: q_eq shape_assigned)
      have "\<not> size_mismatch compat (k, snd q)"
        using mk sq
        by (auto simp: compat_def size_mismatch_tensors map_of_filter_distinct [OF dpm] Q_def
            split: option.splits)
      with qk show ?thesis by simp
    qed
    then show ?thesis by (auto simp: filter_empty_conv)
  qed
  have no_broken: "filter (not_a_tensor compat) (params m1) = []"
    by (simp add: compat_def not_a_tensor_tensors)
  obtain missing unexpected where second: "load_state_dict m1 compat = (m2, Inr (missing, unexpected))"
    using no_mis no_broken load_state_dict_result [of m1 compat]
    by (simp add: m2_def prod_eq_iff)
  \<comment> \<open>what the instance holds in the end\<close>
  have p2: "params m2 =
         map (\<lambda>(k, p). (k, case map_of pm k of
                              Some t \<Rightarrow> if shape t = shape p then t else p
                            | None \<Rightarrow> p)) (params m)"
    unfolding m2_def load_state_dict_params p1 compat_def sd_def
    by (auto simp: assign_twice [OF dpm])
  have res: "load_weights m (Some (as_state_dict pm)) =
      Inr (m2, \<lparr>missing_keys = missing, unexpected_keys = unexpected, incompatible_keys = incompat\<rparr>)"
    using first fc second mis
    by (simp add: load_weights_def as_state_dict_def sd_def [symmetric])
  have "ShapeMismatch k0 (shape t0) (shape p0) \<in> set incompat"
    using k0 unfolding incompat_def by (force simp: image_iff)
  moreover have "arch m2 = arch m \<and> out_classes m2 = out_classes m \<and> variant_tag m2 = variant_tag m"
    by (simp add: m2_def m1_def load_state_dict_arch)
  ultimately show ?thesis
    using res p2 by (simp add: incompat_def)
qed

section \<open>What a call of \<open>load_model\<close> does to the tables\<close>

lemma read_checkpoint_state:
  "read_checkpoint env model_name model_path st = (sd, n, names, st1) \<Longrightarrow>
     loaded_models st1 = loaded_models st \<and> model_paths st1 = model_paths st
     \<and> torch_loads st1 = torch_loads st @ [model_path]"
  by (auto simp: read_checkpoint_def Let_def split: option.splits sum.splits if_splits)

lemma find_simple_variant_error:
  "find_simple_variant items n = Inl e \<Longrightarrow> e = AttributeError"
  by (induction items n rule: find_simple_variant.induct)
     (auto split: if_splits pyobj.splits)

lemma select_variant_error:
  "select_variant model_name sd n = Inl e \<Longrightarrow> e \<noteq> ModelNotFound"
  by (auto simp: select_variant_def split: if_splits option.splits pyobj.splits
      dest: find_simple_variant_error)

lemma create_model_architecture_error:
  "create_model_architecture env model_name n variant = Inl e \<Longrightarrow> e = UnknownModelName"
  by (auto simp: create_model_architecture_def split: if_splits)

lemma filter_compatible_error:
  "filter_compatible ms sd = Inl e \<Longrightarrow> e = AttributeError"
  by (induction ms sd rule: filter_compatible.induct)
     (auto split: option.splits pyobj.splits sum.splits if_splits prod.splits)

lemma load_weights_error:
  "load_weights m sd = Inl e \<Longrightarrow> e \<noteq> ModelNotFound"
  by (auto simp: load_weights_def split: option.splits pyobj.splits sum.splits if_splits prod.splits
      dest: filter_compatible_error)

lemma load_state_dict_out_classes:
  "load_state_dict m sd = (m1, r) \<Longrightarrow> out_classes m1 = out_classes m"
  using load_state_dict_arch [of m sd] by simp

lemma load_weights_out_classes:
  assumes "load_weights m sd = Inr (m', d)"
  shows "out_classes m' = out_classes m"
proof -
  from assms obtain items where sd: "sd = Some (PyDict items)"
    by (auto simp: load_weights_def split: option.splits pyobj.splits)
  obtain m1 r where first: "load_state_dict m items = (m1, r)"
    by (cases "load_state_dict m items")
  have m1: "out_classes m1 = out_classes m"
    using first by (rule load_state_dict_out_classes)
  show ?thesis
  proof (cases r)
    case (Inr keys)
    with assms sd first m1 show ?thesis
      by (auto simp: load_weights_def split: prod.splits)
  next
    case (Inl err)
    with assms sd first obtain compatible_state incompatible where
      fc: "filter_compatible (params m1) items = Inr (compatible_state, incompatible)"
      by (auto simp: load_weights_def split: if_splits sum.splits prod.splits)
    obtain m2 r2 where second: "load_state_dict m1 compatible_state = (m2, r2)"
      by (cases "load_state_dict m1 compatible_state")
    have "out_classes m2 = out_classes m1"
      using second by (rule load_state_dict_out_classes)
    moreover have "m' = m2"
      using assms sd first Inl fc second
      by (auto simp: load_weights_def split: if_splits sum.splits prod.splits)
    ultimately show ?thesis using m1 by simp
  qed
qed

lemma create_model_architecture_out_classes:
  "create_model_architecture env model_name n variant = Inr m \<Longrightarrow> out_classes m = n"
  by (auto simp: create_model_architecture_def new_module_def split: if_splits)

text \<open>The outcome of a call that finds the cache empty and the artifact in place.\<close>

lemma load_model_miss:
  assumes "loaded_models st model_name = None" "model_paths st model_name = Some model_path"
    "model_path \<noteq> []" "path_exists env model_path"
    "read_checkpoint env model_name model_path st = (sd, n, names, st1)"
  shows "load_model env model_name st =
     (case select_variant model_name sd n of
        Inl e \<Rightarrow> (Inl e, st1)
      | Inr variant \<Rightarrow>
          (case create_model_architecture env model_name n variant of
             Inl e \<Rightarrow> (Inl e, st1)
           | Inr m \<Rightarrow>
               (case load_weights m sd of
                  Inl e \<Rightarrow> (Inl e, st1)
                | Inr (m', diag) \<Rightarrow>
                    (Inr m', st1\<lparr>loaded_models := (loaded_models st1)(model_name \<mapsto> m')\<rparr>))))"
  using assms by (simp add: load_model_def)

lemma load_model_hit:
  "loaded_models st model_name = Some m \<Longrightarrow> load_model env model_name st = (Inr m, st)"
  by (simp add: load_model_def)

lemma load_model_no_path:
  "loaded_models st model_name = None \<Longrightarrow>
   (case model_paths st model_name of None \<Rightarrow> True | Some p \<Rightarrow> p = [] \<or> \<not> path_exists env p) \<Longrightarrow>
   load_model env model_name st = (Inl ModelNotFound, st)"
  by (auto simp: load_model_def split: option.splits)

lemma load_model_miss_cases:
  assumes "loaded_models st model_name = None" "model_paths st model_name = Some model_path"
    "model_path \<noteq> []" "path_exists env model_path"
  obtains (fail) e st1 where "load_model env model_name st = (Inl e, st1)" "e \<noteq> ModelNotFound"
      "loaded_models st1 = loaded_models st" "model_paths st1 = model_paths st"
      "torch_loads st1 = torch_loads st @ [model_path]"
    | (ok) m st1 sd n names variant m0 diag where
      "read_checkpoint env model_name model_path st = (sd, n, names, st1)"
      "create_model_architecture env model_name n variant = Inr m0"
      "load_weights m0 sd = Inr (m, diag)"
      "load_model env model_name st =
         (Inr m, st1\<lparr>loaded_models := (loaded_models st1)(model_name \<mapsto> m)\<rparr>)"
proof -
  obtain sd n names st1 where rc: "read_checkpoint env model_name model_path st = (sd, n, names, st1)"
    by (cases "read_checkpoint env model_name model_path st") auto
  note st1 = read_checkpoint_state [OF rc]
  note lm = load_model_miss [OF assms rc]
  show ?thesis
  proof (cases "select_variant model_name sd n")
    case (Inl e)
    then show ?thesis using lm st1 select_variant_error [OF Inl] by (intro fail [of e st1]) simp_all
  next
    case sv: (Inr variant)
    show ?thesis
    proof (cases "create_model_architecture env model_name n variant")
      case (Inl e)
      then show ?thesis using lm st1 sv create_model_architecture_error [OF Inl]
        by (intro fail [of e st1]) simp_all
    next
      case cm: (Inr m0)
      show ?thesis
      proof (cases "load_weights m0 sd")
        case (Inl e)
        then show ?thesis using lm st1 sv cm load_weights_error [OF Inl]
          by (intro fail [of e st1]) simp_all
      next
        case (Inr r)
        obtain m diag where r: "r = (m, diag)" by (cases r)
        show ?thesis
          using lm sv cm Inr r rc by (intro ok [of sd n names st1 variant m0 m diag]) simp_all
      qed
    qed
  qed
qed


lemma load_model_cache:
  assumes "load_model env model_name st = (r, st')"
  shows "model_paths st' = model_paths st
     \<and> loaded_models st' =
         (case r of Inl e \<Rightarrow> loaded_models st | Inr m \<Rightarrow> (loaded_models st)(model_name \<mapsto> m))"
proof (cases "loaded_models st model_name")
  case (Some m)
  with assms load_model_hit [OF Some, of env] show ?thesis
    by (auto simp: map_upd_triv)
next
  case None
  show ?thesis
  proof (cases "case model_paths st model_name of None \<Rightarrow> True
                | Some p \<Rightarrow> p = [] \<or> \<not> path_exists env p")
    case True
    with assms load_model_no_path [OF None True] show ?thesis by auto
  next
    case False
    then obtain p where p: "model_paths st model_name = Some p" "p \<noteq> []" "path_exists env p"
      by (auto split: option.splits)
    from None p show ?thesis
    proof (cases rule: load_model_miss_cases)
      case (fail e st1)
      with assms show ?thesis by auto
    next
      case (ok m st1 sd n names variant m0 diag)
      with assms read_checkpoint_state [OF ok(1)] show ?thesis by auto
    qed
  qed
qed

lemma load_model_keeps_entry:
  assumes "loaded_models st model_name = Some m"
  shows "loaded_models (snd (load_model env other st)) model_name = Some m"
proof (cases "other = model_name")
  case True
  with assms show ?thesis by (simp add: load_model_hit)
next
  case False
  obtain r st' where c: "load_model env other st = (r, st')"
    by (cases "load_model env other st")
  from load_model_cache [OF c] False assms show ?thesis
    by (cases r) (simp_all add: c)
qed

lemma later_calls_keep_entry:
  "loaded_models st model_name = Some m \<Longrightarrow>
     loaded_models (later_calls calls st) model_name = Some m"
proof (induction calls arbitrary: st)
  case Nil
  then show ?case by simp
next
  case (Cons c calls)
  obtain env other where c: "c = (env, other)" by (cases c)
  show ?case
    unfolding c using Cons.IH [OF load_model_keeps_entry [OF Cons.prems, of env other]]
    by simp
qed

text \<open>
  C7. Once a call of \<open>load_model\<close> for a name has returned a model \<open>m\<close>, every call for
  that name after any run of further calls, in whatever environment, returns \<open>m\<close>, the
  entry of the cache, and leaves the whole state as it was: no table changes and no
  artifact is read.
\<close>

theorem load_model_cached_forever:
  assumes "load_model env model_name st = (Inr m, st1)"
  shows "load_model env' model_name (later_calls calls st1) = (Inr m, later_calls calls st1)"
proof -
  from load_model_cache [OF assms] have "loaded_models st1 model_name = Some m" by simp
  then have "loaded_models (later_calls calls st1) model_name = Some m"
    by (rule later_calls_keep_entry)
  then show ?thesis by (rule load_model_hit)
qed

text \<open>
  C6, as the code has it. \<open>load_model\<close> fails with \<open>ModelNotFound\<close> exactly when the name is
  not in the cache and either the path table has no path for it or that path is empty or
  no longer exists. Whenever a call fails, with whatever error, the cache is what it was
  before the call; and the next call for the name, made while its artifact exists, finds
  no cache entry and reads the artifact again.
\<close>

theorem load_model_not_found_iff:
  "(fst (load_model env model_name st) = Inl ModelNotFound \<longleftrightarrow>
      loaded_models st model_name = None
      \<and> (case model_paths st model_name of
            None \<Rightarrow> True
          | Some p \<Rightarrow> p = [] \<or> \<not> path_exists env p))
   \<and> (load_model env model_name st = (Inl e, st') \<longrightarrow>
        loaded_models st' = loaded_models st
        \<and> (model_paths st model_name = Some p \<longrightarrow> p \<noteq> [] \<longrightarrow> path_exists env' p \<longrightarrow>
             torch_loads (snd (load_model env' model_name st')) = torch_loads st' @ [p]))"
proof (intro conjI impI)
  show "fst (load_model env model_name st) = Inl ModelNotFound \<longleftrightarrow>
      loaded_models st model_name = None
      \<and> (case model_paths st model_name of
            None \<Rightarrow> True
          | Some p \<Rightarrow> p = [] \<or> \<not> path_exists env p)"
  proof (cases "loaded_models st model_name")
    case (Some m)
    then show ?thesis by (simp add: load_model_hit)
  next
    case None
    show ?thesis
    proof (cases "case model_paths st model_name of None \<Rightarrow> True
                  | Some p \<Rightarrow> p = [] \<or> \<not> path_exists env p")
      case True
      with None load_model_no_path [OF None True] show ?thesis by simp
    next
      case False
      then obtain p where p: "model_paths st model_name = Some p" "p \<noteq> []" "path_exists env p"
        by (auto split: option.splits)
      from None p have "fst (load_model env model_name st) \<noteq> Inl ModelNotFound"
        by (cases rule: load_model_miss_cases) auto
      with False show ?thesis by simp
    qed
  qed
next
  assume f: "load_model env model_name st = (Inl e, st')"
  from load_model_cache [OF f] show "loaded_models st' = loaded_models st" by simp
next
  assume f: "load_model env model_name st = (Inl e, st')"
    and p: "model_paths st model_name = Some p" "p \<noteq> []" "path_exists env' p"
  have miss: "loaded_models st model_name = None"
  proof (cases "loaded_models st model_name")
    case (Some m)
    from load_model_hit [OF Some, of env] f show ?thesis by simp
  qed simp
  from load_model_cache [OF f] miss p have
    st': "loaded_models st' model_name = None" "model_paths st' model_name = Some p"
    by simp_all
  from st' p(2,3) show "torch_loads (snd (load_model env' model_name st')) = torch_loads st' @ [p]"
  proof (cases rule: load_model_miss_cases)
    case (fail e st1)
    then show ?thesis by simp
  next
    case (ok m st1 sd n names variant m0 diag)
    with read_checkpoint_state [OF ok(1)] show ?thesis by simp
  qed
qed

section \<open>The configuration stored by a load\<close>

lemma length_names_for: "length (names_for n) = n"
  by (simp add: names_for_def)

lemma read_checkpoint_detected:
  assumes "torch_load env model_path = Some checkpoint"
    "detect_num_classes_from_checkpoint (normalize_checkpoint checkpoint) = Inr (Some n)" "n \<noteq> 0"
    "read_checkpoint env model_name model_path st = (sd, n', names, st1)"
  shows "n' = n \<and> names = names_for n
     \<and> model_configs st1 model_name = Some \<lparr>num_classes = n, class_names = names_for n\<rparr>"
  using assms by (auto simp: read_checkpoint_def Let_def)

text \<open>
  C10, as the code has it. Let a call of \<open>load_model\<close> find the cache empty for the name,
  read an artifact on which class-count detection returns \<open>n\<close>, \<open>n\<close> not 0, and return a
  model. Then the configuration stored for the name has \<open>num_classes = n\<close> and \<open>n\<close> class
  names: the binary pair for 2, the five coffee-disease names for 5, \<open>Class_0\<close> to
  \<open>Class_{n-1}\<close> otherwise; and the model was built for \<open>n\<close> classes.
\<close>

theorem load_model_detected_config:
  assumes "loaded_models st model_name = None"
    "model_paths st model_name = Some model_path"
    "torch_load env model_path = Some checkpoint"
    "detect_num_classes_from_checkpoint (normalize_checkpoint checkpoint) = Inr (Some n)"
    "n \<noteq> 0"
    "load_model env model_name st = (Inr m, st')"
  shows "model_configs st' model_name = Some \<lparr>num_classes = n, class_names = names_for n\<rparr>
     \<and> length (names_for n) = n
     \<and> out_classes m = n
     \<and> names_for 2 = [''Healthy'', ''Not Healthy'']
     \<and> names_for 5 = [''Cerscospora'', ''Healthy'', ''Leaf rust'', ''Miner'', ''Phoma'']
     \<and> (n \<noteq> 2 \<longrightarrow> n \<noteq> 5 \<longrightarrow> names_for n = map (\<lambda>i. ''Class_'' @ str_nat i) [0..<n])"
proof -
  have here: "model_path \<noteq> [] \<and> path_exists env model_path"
  proof (rule ccontr)
    assume "\<not> (model_path \<noteq> [] \<and> path_exists env model_path)"
    with assms(2) have "case model_paths st model_name of None \<Rightarrow> True
                | Some p \<Rightarrow> p = [] \<or> \<not> path_exists env p"
      by auto
    from load_model_no_path [OF assms(1) this] assms(6) show False by simp
  qed
  from here have ne: "model_path \<noteq> []" and ex: "path_exists env model_path" by simp_all
  from assms(1,2) ne ex have
    "model_configs st' model_name = Some \<lparr>num_classes = n, class_names = names_for n\<rparr>
     \<and> out_classes m = n"
  proof (cases rule: load_model_miss_cases)
    case (fail e st1)
    with assms(6) show ?thesis by simp
  next
    case (ok m1 st1 sd n' names variant m0 diag)
    from read_checkpoint_detected [OF assms(3,4,5) ok(1)] have
      n': "n' = n" and cfg: "model_configs st1 model_name = Some \<lparr>num_classes = n, class_names = names_for n\<rparr>"
      by simp_all
    have "out_classes m1 = n"
      using load_weights_out_classes [OF ok(3)] create_model_architecture_out_classes [OF ok(2)] n'
      by simp
    with ok(4) assms(6) cfg show ?thesis by auto
  qed
  moreover have "names_for 2 = [''Healthy'', ''Not Healthy'']"
    by (simp add: names_for_def)
  moreover have "names_for 5 = [''Cerscospora'', ''Healthy'', ''Leaf rust'', ''Miner'', ''Phoma'']"
    by (simp add: names_for_def)
  moreover have "n \<noteq> 2 \<longrightarrow> n \<noteq> 5 \<longrightarrow> names_for n = map (\<lambda>i. ''Class_'' @ str_nat i) [0..<n]"
    by (simp add: names_for_def)
  ultimately show ?thesis by (simp add: length_names_for)
qed

section \<open>The worked scenario, evaluated\<close>

lemma scenario_env_fields:
  "path_exists scenario_env p"
  "torch_load scenario_env p = Some (PyDict [(''state_dict'', as_state_dict scenario_map)])"
  "constructor scenario_env = scenario_constructor"
  by (simp_all add: scenario_env_def)

lemma removed_env_fields: "\<not> path_exists removed_env p"
  by (simp add: removed_env_def)

lemma corrupt_env_fields:
  "path_exists corrupt_env p" "torch_load corrupt_env p = None"
  "constructor corrupt_env = scenario_constructor"
  by (simp_all add: corrupt_env_def)

lemma empty_head_env_fields:
  "path_exists empty_head_env p"
  "torch_load empty_head_env p = Some (as_state_dict [(''fc.weight'', Tensor [0, 10] 7)])"
  "constructor empty_head_env = scenario_constructor"
  by (simp_all add: empty_head_env_def)

lemma scenario_state_tables:
  "loaded_models scenario_state = Map.empty"
  "model_paths scenario_state = [''CustomCNN1'' \<mapsto> ''CustomCNN1_best.pth'']"
  "model_configs scenario_state =
       [''CustomCNN1'' \<mapsto> \<lparr>num_classes = 5, class_names = coffee_classes\<rparr>]"
  "torch_loads scenario_state = []"
  by (simp_all add: scenario_state_def scan_for_models_def initial_state_def MODEL_CONFIGS_def
      candidate_names custom1_matches)

lemma scenario_normalize:
  "normalize_checkpoint (PyDict [(''state_dict'', as_state_dict scenario_map)])
     = as_state_dict scenario_map"
  by (simp add: normalize_checkpoint_def)

lemma scenario_detect:
  "detect_num_classes_from_checkpoint (as_state_dict scenario_map) = Inr (Some 5)"
  by (simp add: detect_num_classes_from_checkpoint_def as_state_dict_def scenario_map_def
      classifier_term_def str_simps extract_layer_index_def is_digit_def int_of_digits_def
      digit_val_def select_num_classes_def sort_by_index_desc_def reasonable_def)

lemma scenario_build:
  "create_model_architecture env ''CustomCNN1'' n variant
     = Inr (new_module env ''CustomCNN1'' n ''default'')"
  by (simp add: create_model_architecture_def)

lemma scenario_variant: "select_variant ''CustomCNN1'' sd n = Inr ''default''"
  by (simp add: select_variant_def)

lemma scenario_bind:
  "load_weights (new_module scenario_env ''CustomCNN1'' 5 ''default'')
       (Some (as_state_dict scenario_map))
     = Inr (\<lparr>arch = ''CustomCNN1'', out_classes = 5, variant_tag = ''default'',
              params = [(''features.0.weight'', Tensor [32, 3, 3, 3] 3),
                        (''classifier.4.weight'', Tensor [5, 128] 0),
                        (''classifier.4.bias'', Tensor [5] 2)]\<rparr>,
            \<lparr>missing_keys = [''classifier.4.weight''], unexpected_keys = [],
              incompatible_keys = [ShapeMismatch ''classifier.4.weight'' [5, 256] [5, 128]]\<rparr>)"
  by (simp add: load_weights_def as_state_dict_def scenario_map_def load_state_dict_def
      new_module_def scenario_env_fields scenario_constructor_def
      assign_param_def size_mismatch_def not_a_tensor_def Let_def)

lemma scenario_load:
  "fst (load_model scenario_env ''CustomCNN1'' scenario_state) =
     Inr \<lparr>arch = ''CustomCNN1'', out_classes = 5, variant_tag = ''default'',
          params = [(''features.0.weight'', Tensor [32, 3, 3, 3] 3),
                    (''classifier.4.weight'', Tensor [5, 128] 0),
                    (''classifier.4.bias'', Tensor [5] 2)]\<rparr>"
  by (simp add: load_model_def scenario_state_tables read_checkpoint_def scenario_env_fields
      scenario_normalize scenario_detect scenario_variant scenario_build scenario_bind Let_def)

lemma corrupt_load:
  "fst (load_model corrupt_env ''CustomCNN1'' scenario_state) = Inl UnboundLocalError"
  by (simp add: load_model_def scenario_state_tables read_checkpoint_def corrupt_env_fields
      scenario_variant scenario_build load_weights_def Let_def)

lemma empty_head_normalize:
  "normalize_checkpoint (as_state_dict [(''fc.weight'', Tensor [0, 10] (7::nat))])
     = as_state_dict [(''fc.weight'', Tensor [0, 10] 7)]"
  by (simp add: normalize_checkpoint_def as_state_dict_def wrapper_key_def str_simps)

lemma empty_head_detect:
  "detect_num_classes_from_checkpoint (as_state_dict [(''fc.weight'', Tensor [0, 10] (7::nat))])
     = Inr (Some 0)"
  by (simp add: detect_num_classes_from_checkpoint_def as_state_dict_def
      classifier_term_def str_simps extract_layer_index_def is_digit_def
      select_num_classes_def sort_by_index_desc_def reasonable_def)

lemma empty_head_bind:
  "load_weights (new_module empty_head_env ''CustomCNN1'' 5 ''default'')
       (Some (as_state_dict [(''fc.weight'', Tensor [0, 10] 7)]))
     = Inr (new_module empty_head_env ''CustomCNN1'' 5 ''default'',
            \<lparr>missing_keys = [''features.0.weight'', ''classifier.4.weight'', ''classifier.4.bias''],
              unexpected_keys = [''fc.weight''], incompatible_keys = []\<rparr>)"
  by (simp add: load_weights_def as_state_dict_def load_state_dict_def
      new_module_def empty_head_env_fields scenario_constructor_def
      assign_param_def size_mismatch_def not_a_tensor_def Let_def)

lemma empty_head_load:
  "load_model empty_head_env ''CustomCNN1'' scenario_state =
     (Inr (new_module empty_head_env ''CustomCNN1'' 5 ''default''),
      scenario_state\<lparr>torch_loads := [''CustomCNN1_best.pth''],
        loaded_models := [''CustomCNN1'' \<mapsto> new_module empty_head_env ''CustomCNN1'' 5 ''default'']\<rparr>)"
  by (simp add: load_model_def scenario_state_tables read_checkpoint_def empty_head_env_fields
      empty_head_normalize empty_head_detect scenario_variant scenario_build empty_head_bind Let_def)

text \<open>
  The binding theorem (C2) at the scenario: \<open>classifier.4.weight\<close> keeps what the
  constructor wrote and is the one entry of \<open>incompatible_keys\<close>, with both shapes.
\<close>

theorem load_weights_partial_load_witness:
  "\<exists>m' diag.
     load_weights (new_module scenario_env ''CustomCNN1'' 5 ''default'')
       (Some (as_state_dict scenario_map)) = Inr (m', diag)
     \<and> params m' =
         [(''features.0.weight'', Tensor [32, 3, 3, 3] 3),
          (''classifier.4.weight'', Tensor [5, 128] 0),
          (''classifier.4.bias'', Tensor [5] 2)]
     \<and> incompatible_keys diag = [ShapeMismatch ''classifier.4.weight'' [5, 256] [5, 128]]"
  using load_weights_partial_load
    [of scenario_map "new_module scenario_env ''CustomCNN1'' 5 ''default''"
        "''classifier.4.weight''" "Tensor [5, 256] 1" "Tensor [5, 128] 0"]
  by (simp add: scenario_map_def scenario_env_fields scenario_constructor_def new_module_def) blast

text \<open>
  C2 as stated fails for a key that the instance lacks: with \<open>classifier.7.weight\<close> added
  to the map of the scenario, that key is not bound and its entry in \<open>incompatible_keys\<close>
  says that it is not in the model; there are no two shapes to record.
\<close>

theorem load_weights_absent_key_counterexample:
  "load_weights (new_module scenario_env ''CustomCNN1'' 5 ''default'')
       (Some (as_state_dict (scenario_map @ [(''classifier.7.weight'', Tensor [5, 64] 4)])))
     = Inr (\<lparr>arch = ''CustomCNN1'', out_classes = 5, variant_tag = ''default'',
              params = [(''features.0.weight'', Tensor [32, 3, 3, 3] 3),
                        (''classifier.4.weight'', Tensor [5, 128] 0),
                        (''classifier.4.bias'', Tensor [5] 2)]\<rparr>,
            \<lparr>missing_keys = [''classifier.4.weight''], unexpected_keys = [],
              incompatible_keys = [ShapeMismatch ''classifier.4.weight'' [5, 256] [5, 128],
                                   NotInModel ''classifier.7.weight'']\<rparr>)"
  by (simp add: load_weights_def as_state_dict_def scenario_map_def load_state_dict_def
      new_module_def scenario_env_fields scenario_constructor_def
      assign_param_def size_mismatch_def not_a_tensor_def Let_def)

text \<open>
  The cache theorem (C7) at the scenario: after the load, a failing request for another
  model and a second request for this one, a call made when the file is gone still returns
  the cached model and changes nothing.
\<close>

theorem load_model_cached_forever_witness:
  "fst (load_model removed_env ''CustomCNN1''
          (later_calls [(corrupt_env, ''BinaryCNN_Deep''), (scenario_env, ''CustomCNN1'')]
             (snd (load_model scenario_env ''CustomCNN1'' scenario_state))))
     = Inr \<lparr>arch = ''CustomCNN1'', out_classes = 5, variant_tag = ''default'',
            params = [(''features.0.weight'', Tensor [32, 3, 3, 3] 3),
                      (''classifier.4.weight'', Tensor [5, 128] 0),
                      (''classifier.4.bias'', Tensor [5] 2)]\<rparr>
   \<and> snd (load_model removed_env ''CustomCNN1''
          (later_calls [(corrupt_env, ''BinaryCNN_Deep''), (scenario_env, ''CustomCNN1'')]
             (snd (load_model scenario_env ''CustomCNN1'' scenario_state))))
     = later_calls [(corrupt_env, ''BinaryCNN_Deep''), (scenario_env, ''CustomCNN1'')]
         (snd (load_model scenario_env ''CustomCNN1'' scenario_state))"
proof -
  have "load_model scenario_env ''CustomCNN1'' scenario_state =
      (Inr \<lparr>arch = ''CustomCNN1'', out_classes = 5, variant_tag = ''default'',
            params = [(''features.0.weight'', Tensor [32, 3, 3, 3] 3),
                      (''classifier.4.weight'', Tensor [5, 128] 0),
                      (''classifier.4.bias'', Tensor [5] 2)]\<rparr>,
       snd (load_model scenario_env ''CustomCNN1'' scenario_state))"
    by (simp add: prod_eq_iff scenario_load)
  from load_model_cached_forever [OF this, of removed_env
      "[(corrupt_env, ''BinaryCNN_Deep''), (scenario_env, ''CustomCNN1'')]"]
  show ?thesis by (simp only: fst_conv snd_conv simp_thms)
qed

text \<open>
  The failure theorem (C6) at the scenario: with the file removed the call fails with
  \<open>ModelNotFound\<close>; with an unreadable file it fails otherwise, leaves the cache as it
  was, and the next call reads the artifact again.
\<close>

theorem load_model_not_found_iff_witness:
  "fst (load_model removed_env ''CustomCNN1'' scenario_state) = Inl ModelNotFound
   \<and> fst (load_model corrupt_env ''CustomCNN1'' scenario_state) = Inl UnboundLocalError
   \<and> loaded_models (snd (load_model corrupt_env ''CustomCNN1'' scenario_state))
       = loaded_models scenario_state
   \<and> torch_loads (snd (load_model scenario_env ''CustomCNN1''
                          (snd (load_model corrupt_env ''CustomCNN1'' scenario_state))))
       = torch_loads (snd (load_model corrupt_env ''CustomCNN1'' scenario_state))
           @ [''CustomCNN1_best.pth'']"
proof -
  have failed: "load_model corrupt_env ''CustomCNN1'' scenario_state =
      (Inl UnboundLocalError, snd (load_model corrupt_env ''CustomCNN1'' scenario_state))"
    by (simp add: prod_eq_iff corrupt_load)
  from load_model_not_found_iff [of removed_env "''CustomCNN1''" scenario_state]
  have "fst (load_model removed_env ''CustomCNN1'' scenario_state) = Inl ModelNotFound"
    by (simp add: scenario_state_tables removed_env_fields)
  moreover
  from load_model_not_found_iff [of corrupt_env "''CustomCNN1''" scenario_state
      UnboundLocalError "snd (load_model corrupt_env ''CustomCNN1'' scenario_state)"
      "''CustomCNN1_best.pth''" scenario_env] failed
  have "loaded_models (snd (load_model corrupt_env ''CustomCNN1'' scenario_state))
       = loaded_models scenario_state
   \<and> torch_loads (snd (load_model scenario_env ''CustomCNN1''
                          (snd (load_model corrupt_env ''CustomCNN1'' scenario_state))))
       = torch_loads (snd (load_model corrupt_env ''CustomCNN1'' scenario_state))
           @ [''CustomCNN1_best.pth'']"
    by (simp add: scenario_state_tables scenario_env_fields)
  ultimately show ?thesis by (simp add: corrupt_load)
qed

text \<open>
  C6 as stated fails where the artifact has disappeared: \<open>CustomCNN1\<close> is in the path
  table built by the scan, and the call fails with \<open>ModelNotFound\<close> all the same.
\<close>

theorem load_model_removed_file_counterexample:
  "model_paths scenario_state ''CustomCNN1'' = Some ''CustomCNN1_best.pth''
   \<and> fst (load_model removed_env ''CustomCNN1'' scenario_state) = Inl ModelNotFound"
  by (simp add: load_model_def scenario_state_tables removed_env_fields)

text \<open>
  The configuration theorem (C10) at the scenario: five classes are detected and stored
  with the five coffee-disease names.
\<close>

theorem load_model_detected_config_witness:
  "model_configs (snd (load_model scenario_env ''CustomCNN1'' scenario_state)) ''CustomCNN1''
     = Some \<lparr>num_classes = 5,
             class_names = [''Cerscospora'', ''Healthy'', ''Leaf rust'', ''Miner'', ''Phoma'']\<rparr>
   \<and> length [''Cerscospora'', ''Healthy'', ''Leaf rust'', ''Miner'', ''Phoma''] = (5 :: nat)
   \<and> fst (load_model scenario_env ''CustomCNN1'' scenario_state) =
       Inr \<lparr>arch = ''CustomCNN1'', out_classes = 5, variant_tag = ''default'',
            params = [(''features.0.weight'', Tensor [32, 3, 3, 3] 3),
                      (''classifier.4.weight'', Tensor [5, 128] 0),
                      (''classifier.4.bias'', Tensor [5] 2)]\<rparr>"
proof -
  have "load_model scenario_env ''CustomCNN1'' scenario_state =
      (Inr \<lparr>arch = ''CustomCNN1'', out_classes = 5, variant_tag = ''default'',
            params = [(''features.0.weight'', Tensor [32, 3, 3, 3] 3),
                      (''classifier.4.weight'', Tensor [5, 128] 0),
                      (''classifier.4.bias'', Tensor [5] 2)]\<rparr>,
       snd (load_model scenario_env ''CustomCNN1'' scenario_state))"
    by (simp add: prod_eq_iff scenario_load)
  from load_model_detected_config [of scenario_state "''CustomCNN1''" "''CustomCNN1_best.pth''"
      scenario_env "PyDict [(''state_dict'', as_state_dict scenario_map)]" 5 _ _, OF _ _ _ _ _ this]
  show ?thesis
    by (simp add: scenario_state_tables scenario_env_fields scenario_normalize scenario_detect
        scenario_load)
qed

text \<open>
  C10 as stated fails where detection returns 0: the only classifier layer of the artifact
  has shape \<open>[0, 10]\<close>, detection returns 0, the load succeeds with the default class count,
  and the stored configuration keeps 5 classes.
\<close>

theorem load_model_zero_rows_counterexample:
  "torch_load empty_head_env ''CustomCNN1_best.pth''
     = Some (as_state_dict [(''fc.weight'', Tensor [0, 10] 7)])
   \<and> detect_num_classes_from_checkpoint
       (normalize_checkpoint (as_state_dict [(''fc.weight'', Tensor [0, 10] (7 :: nat))]))
     = Inr (Some 0)
   \<and> fst (load_model empty_head_env ''CustomCNN1'' scenario_state)
     = Inr (new_module empty_head_env ''CustomCNN1'' 5 ''default'')
   \<and> model_configs (snd (load_model empty_head_env ''CustomCNN1'' scenario_state)) ''CustomCNN1''
     = Some \<lparr>num_classes = 5, class_names = coffee_classes\<rparr>"
  by (simp add: empty_head_load empty_head_normalize empty_head_detect scenario_state_tables
      empty_head_env_fields)

end
